theory Spec2Isabelle
  imports Complex_Main
begin

section \<open>JavaScript values used by the engine\<close>

text \<open>
  The engine is JavaScript. Its numbers are modelled as \<^typ>\<open>real\<close>: the
  probabilities in exact arithmetic, the index and the coordinates of a placement with the
  rounding of doubles (next section), since their properties are at the scale of that
  rounding. \<open>NaN\<close> and the infinities are outside the model. Array indices and counters
  are \<^typ>\<open>int\<close> and \<^typ>\<open>nat\<close>, strings are \<^typ>\<open>string\<close>.
  A \<open>TypeError\<close> thrown by the runtime is a value of the type \<open>error\<close>; so is
  \<open>NotANumber\<close>, for a computation whose result would be \<open>NaN\<close>. An invalid
  \<open>Date\<close> is outside the model as well.
\<close>

datatype error = TypeError | NotANumber

text \<open>\<open>Math.round\<close>: the nearest integer, a tie going up.\<close>

definition Math_round :: "real \<Rightarrow> int" where
  "Math_round x = \<lfloor>x + 1 / 2\<rfloor>"

text \<open>\<open>Math.floor\<close>.\<close>

definition Math_floor :: "real \<Rightarrow> int" where
  "Math_floor x = \<lfloor>x\<rfloor>"

text \<open>
  The remainder operator \<open>%\<close>: the quotient is truncated toward zero, so the result has
  the sign of the dividend. \<open>js_rem\<close> is \<open>%\<close> on numbers, \<open>js_rem_int\<close> the same operator
  where both operands are integers.
\<close>

definition trunc :: "real \<Rightarrow> int" where
  "trunc x = (if 0 \<le> x then \<lfloor>x\<rfloor> else \<lceil>x\<rceil>)"

definition js_rem :: "real \<Rightarrow> real \<Rightarrow> real" where
  "js_rem a b = a - b * of_int (trunc (a / b))"

definition js_rem_int :: "int \<Rightarrow> int \<Rightarrow> int" where
  "js_rem_int a b = sgn a * (\<bar>a\<bar> mod \<bar>b\<bar>)"

text \<open>An array read \<open>xs[i]\<close>: \<open>undefined\<close> (here \<open>None\<close>) outside \<open>0 .. length - 1\<close>.\<close>

definition array_get :: "'a list \<Rightarrow> int \<Rightarrow> 'a option" where
  "array_get xs i = (if 0 \<le> i \<and> i < int (length xs) then Some (xs ! nat i) else None)"

text \<open>\<open>Array.prototype.join\<close>.\<close>

fun join :: "string \<Rightarrow> string list \<Rightarrow> string" where
  "join sep [] = []"
| "join sep [x] = x"
| "join sep (x # y # ys) = x @ sep @ join sep (y # ys)"

text \<open>\<open>String(n)\<close> of an integer and \<open>padStart(2, '0')\<close>.\<close>

fun digits :: "nat \<Rightarrow> string" where
  "digits n = (if n < 10 then [''0123456789'' ! n]
               else digits (n div 10) @ [''0123456789'' ! (n mod 10)])"

definition String_of_int :: "int \<Rightarrow> string" where
  "String_of_int i = (if i < 0 then CHR ''-'' # digits (nat (- i)) else digits (nat i))"

definition padStart2 :: "string \<Rightarrow> string" where
  "padStart2 s = replicate (2 - length s) CHR ''0'' @ s"

text \<open>
  Every object literal inherits from \<open>Object.prototype\<close>. A lookup \<open>TABLE[name]\<close> in
  one of the configuration tables therefore yields the table's own entry, or an inherited
  member (a function, or for \<open>__proto__\<close> the prototype object: truthy, and none of them
  has a \<open>forEach\<close>, a \<open>condition\<close> or a \<open>start\<close>), or \<open>undefined\<close>.
\<close>

definition objectPrototypeKeys :: "string list" where
  "objectPrototypeKeys =
     [''constructor'', ''__proto__'', ''hasOwnProperty'', ''isPrototypeOf'',
      ''propertyIsEnumerable'', ''toLocaleString'', ''toString'', ''valueOf'',
      ''__defineGetter__'', ''__defineSetter__'', ''__lookupGetter__'', ''__lookupSetter__'']"

datatype 'a property = Own 'a | Inherited | Undefined

definition lookup :: "(string \<times> 'a) list \<Rightarrow> string \<Rightarrow> 'a property" where
  "lookup table name =
     (case map_of table name of
        Some v \<Rightarrow> Own v
      | None \<Rightarrow> if name \<in> set objectPrototypeKeys then Inherited else Undefined)"

section \<open>Double arithmetic\<close>

text \<open>
  A JavaScript number is a binary64 value: 53 significant bits, exponents from -1022 to
  1023, subnormal numbers below \<open>2\<^sup>-\<^sup>1\<^sup>0\<^sup>2\<^sup>2\<close>. Each arithmetic operation returns the
  exact result rounded to the nearest such value, a tie going to the even significand.

  \<open>exponent64 x\<close> is the exponent of the binade of \<open>x\<close>: the least \<open>e\<close> from -1022 on
  with \<open>\<bar>x\<bar> < 2\<^sup>e\<^sup>+\<^sup>1\<close> (1023 at most), found by counting up. \<open>quantum64 x\<close> is the spacing
  of the doubles there and \<open>fl64 x\<close> the multiple of it nearest to \<open>x\<close>. A result beyond
  the largest double would be an infinity, which the model does not have.
\<close>

primrec exponentFrom :: "nat \<Rightarrow> int \<Rightarrow> real \<Rightarrow> int" where
  "exponentFrom 0 e x = e"
| "exponentFrom (Suc n) e x =
     (if \<bar>x\<bar> < 2 powi (e + 1) then e else exponentFrom n (e + 1) x)"

definition exponent64 :: "real \<Rightarrow> int" where
  "exponent64 x = exponentFrom 2045 (- 1022) x"

definition quantum64 :: "real \<Rightarrow> real" where
  "quantum64 x = 2 powi (exponent64 x - 52)"

definition roundTiesToEven :: "real \<Rightarrow> int" where
  "roundTiesToEven y =
     (let f = \<lfloor>y\<rfloor>; r = y - of_int f
      in if r < 1 / 2 then f
         else if 1 / 2 < r then f + 1
         else if even f then f else f + 1)"

definition fl64 :: "real \<Rightarrow> real" where
  "fl64 x = quantum64 x * of_int (roundTiesToEven (x / quantum64 x))"

text \<open>The operators \<open>+\<close>, \<open>-\<close> and \<open>*\<close> on doubles.\<close>

definition plus64 :: "real \<Rightarrow> real \<Rightarrow> real" where
  "plus64 a b = fl64 (a + b)"

definition minus64 :: "real \<Rightarrow> real \<Rightarrow> real" where
  "minus64 a b = fl64 (a - b)"

definition times64 :: "real \<Rightarrow> real \<Rightarrow> real" where
  "times64 a b = fl64 (a * b)"

section \<open>Dates\<close>

text \<open>
  A \<open>Date\<close> is its time value: milliseconds since 1970-01-01T00:00Z. The UTC getters
  follow the language standard (\<open>Day\<close>, \<open>YearFromTime\<close>, \<open>MonthFromTime\<close>,
  \<open>DateFromTime\<close>), computed from the day number in the proleptic Gregorian calendar.
\<close>

type_synonym jsDate = int

definition msPerDay :: int where
  "msPerDay = 86400000"

definition Day :: "jsDate \<Rightarrow> int" where
  "Day t = t div msPerDay"

definition civil_from_days :: "int \<Rightarrow> int \<times> int \<times> int" where
  "civil_from_days n =
     (let z = n + 719468;
          era = z div 146097;
          doe = z - era * 146097;
          yoe = (doe - doe div 1460 + doe div 36524 - doe div 146096) div 365;
          doy = doe - (365 * yoe + yoe div 4 - yoe div 100);
          mp = (5 * doy + 2) div 153;
          d = doy - (153 * mp + 2) div 5 + 1;
          m = (if mp < 10 then mp + 3 else mp - 9);
          y = yoe + era * 400 + (if m \<le> 2 then 1 else 0)
      in (y, m, d))"

definition getUTCFullYear :: "jsDate \<Rightarrow> int" where
  "getUTCFullYear t = fst (civil_from_days (Day t))"

text \<open>Months are numbered from 0 (January) to 11 (December).\<close>

definition getUTCMonth :: "jsDate \<Rightarrow> int" where
  "getUTCMonth t = fst (snd (civil_from_days (Day t))) - 1"

definition getUTCDate :: "jsDate \<Rightarrow> int" where
  "getUTCDate t = snd (snd (civil_from_days (Day t)))"

definition getTime :: "jsDate \<Rightarrow> real" where
  "getTime t = of_int t"

text \<open>
  The local time of day of a \<open>Date\<close>, as \<open>getHours()\<close>, \<open>getMinutes()\<close>,
  \<open>getSeconds()\<close> and \<open>getMilliseconds()\<close> read it. \<open>new Date()\<close>, the caller's wall
  clock, enters the model as such a value.
\<close>

record localTime =
  getHours :: nat
  getMinutes :: nat
  getSeconds :: nat
  getMilliseconds :: nat

section \<open>Application state (state.js)\<close>

text \<open>
  A location of the pool, as the data loader stores it (the administrative codes, which
  the engine never reads, are left out).
\<close>

record location =
  geonameid :: int
  name :: string
  latitude :: real
  longitude :: real
  featureClass :: string
  fullFeatureCode :: string

text \<open>
  \<open>appState\<close>: the application date and the two indexes of the location pool (both
  are \<open>Map\<close> objects). The other members are not read by the engine.
\<close>

record appState =
  currentDate :: jsDate
  locationsByFeatureCode :: "string \<rightharpoonup> location list"
  locationsByFeatureClass :: "string \<rightharpoonup> location list"

text \<open>
  \<open>debugState\<close>: the developer overrides. \<open>forceTime\<close> is \<open>null\<close> or the string
  \<open>HH:MM\<close> of a time input; it is kept here as the pair that
  \<open>forceTime.split(':').map(Number)\<close> reads from it. \<open>forceSeason\<close> is \<open>'auto'\<close> or
  the name of a season.
\<close>

record debugState =
  multiplier :: real
  forceTime :: "(nat \<times> nat) option"
  forceFullMoon :: "bool option"
  forceSeason :: string
  forceHalloween :: "bool option"

section \<open>Static configuration (config.js)\<close>

record period =
  period_start :: nat
  period_peak :: nat
  period_end :: nat
  period_multiplier :: real

text \<open>The table keeps the order of the object literal: \<open>for ... in\<close> follows it.\<close>

definition TIME_PERIODS :: "(string \<times> period) list" where
  "TIME_PERIODS =
    [(''Midnight'',
        \<lparr>period_start = 0, period_peak = 15, period_end = 59, period_multiplier = 2.5\<rparr>),
     (''Late Night'',
        \<lparr>period_start = 60, period_peak = 150, period_end = 239, period_multiplier = 2.0\<rparr>),
     (''Early Morning'',
        \<lparr>period_start = 240, period_peak = 300, period_end = 359, period_multiplier = 1.4\<rparr>),
     (''Morning'',
        \<lparr>period_start = 360, period_peak = 420, period_end = 539, period_multiplier = 1.2\<rparr>),
     (''Day'',
        \<lparr>period_start = 540, period_peak = 720, period_end = 1079, period_multiplier = 1.0\<rparr>),
     (''Evening'',
        \<lparr>period_start = 1080, period_peak = 1140, period_end = 1259, period_multiplier = 1.4\<rparr>),
     (''Night'',
        \<lparr>period_start = 1260, period_peak = 1350, period_end = 1439, period_multiplier = 2.2\<rparr>)]"

datatype modifierType = Bonuses | Penalties

text \<open>\<open>GLOBAL_MODIFIERS[type]\<close> and \<open>GLOBAL_MODIFIERS.events.halloween\<close>.\<close>

definition GLOBAL_MODIFIERS :: "modifierType \<Rightarrow> (string \<times> real) list" where
  "GLOBAL_MODIFIERS t =
     (case t of
        Bonuses \<Rightarrow>
          [(''witchingHour'', 0.15), (''midnight'', 0.07), (''fullMoon'', 0.12),
           (''yule'', 0.10), (''midsummer'', 0.25)]
      | Penalties \<Rightarrow>
          [(''day'', 0.4), (''earlyMorning'', 0.6), (''evening'', 0.6), (''night'', 0.7),
           (''lateNight'', 0.6)])"

definition GLOBAL_MODIFIERS_events_halloween :: real where
  "GLOBAL_MODIFIERS_events_halloween = 2.5"

text \<open>The groups of feature codes a habitat identifier may name.\<close>

definition LOCATION_GROUPS :: "(string \<times> string list) list" where
  "LOCATION_GROUPS =
    [(''settlements_urban'',
        [''P.PPL'', ''P.PPLA'', ''P.PPLA2'', ''P.PPLA3'', ''P.PPLA4'', ''P.PPLC'', ''S.SQR'']),
     (''settlements_rural'',
        [''P.PPLF'', ''P.PPLL'', ''S.FRM'', ''S.FRMT'', ''S.HUT'', ''S.HUTS'', ''L.LCTY'']),
     (''settlements_all'',
        [''P.PPL'', ''P.PPLA'', ''P.PPLA2'', ''P.PPLA3'', ''P.PPLA4'', ''P.PPLC'', ''P.PPLF'',
         ''P.PPLL'']),
     (''structures_affluent'',
        [''S.PAL'', ''S.CSTL'', ''S.HSEC'', ''S.EST'']),
     (''structures_abandoned'',
        [''P.PPLH'', ''P.PPLQ'', ''P.PPLW'', ''S.RUIN'', ''R.RRQ'', ''S.AIRQ'', ''S.BDGQ'',
         ''S.DAMQ'', ''S.FRMQ'', ''S.CMPQ'', ''S.MLSGQ'']),
     (''structures_historic'',
        [''A.ADM1H'', ''A.ADM2H'', ''A.ADM3H'', ''A.ADM4H'', ''L.BTL'', ''S.ANS'', ''S.HSTS'',
         ''S.MNMT'', ''S.WALLA'', ''R.RDA'']),
     (''structures_defensive'',
        [''S.FT'', ''S.WALL'', ''S.WALLA'', ''S.TOWR'', ''L.MILB'', ''L.NVB'', ''S.INSM'']),
     (''structures_industrial'',
        [''S.MFG'', ''S.ML'', ''S.FNDY'', ''S.PS'', ''S.OILR'', ''S.WTRW'', ''S.DIKE'',
         ''S.DAM'', ''S.LOCK'']),
     (''structures_mines_quarries'',
        [''S.MN'', ''S.MNC'', ''S.MNFE'', ''S.MNAU'', ''S.MNQ'', ''S.MNQR'', ''L.MNA'']),
     (''places_of_worship'',
        [''S.CH'', ''S.MSQE'', ''S.SYG'', ''S.TMPL'', ''S.PGDA'', ''S.SHRN'']),
     (''places_of_seclusion'',
        [''S.MSTY'', ''S.CVNT'', ''S.RLGR'', ''S.HERM'']),
     (''places_of_death'',
        [''S.CMTY'', ''S.GRVE'', ''S.TMB'', ''S.BUR'', ''L.BTL'', ''S.WRCK'']),
     (''places_sacred_all'',
        [''S.CH'', ''S.MSQE'', ''S.SYG'', ''S.TMPL'', ''S.PGDA'', ''S.SHRN'', ''S.MSTY'',
         ''S.CVNT'', ''S.RLGR'', ''S.HERM'', ''S.CMTY'', ''S.GRVE'', ''S.TMB'', ''S.BUR'',
         ''L.BTL'', ''S.RLG'']),
     (''forests_dense'',
        [''V.FRST'', ''V.FRSTF'']),
     (''forests_sparse'',
        [''V.GROVE'', ''V.HTH'', ''V.SCRB'', ''L.CLG'']),
     (''forests_all'',
        [''V.FRST'', ''V.FRSTF'', ''V.GROVE'', ''V.HTH'', ''V.SCRB'']),
     (''cultivated_land'',
        [''L.AGRC'', ''V.CULT'', ''L.FLDI'', ''S.NSY'', ''V.OCH'', ''V.VIN'']),
     (''grasslands'',
        [''V.GRSLD'', ''V.MDW'', ''L.GRAZ'', ''L.PRK'', ''L.CMN'']),
     (''mountains_high'',
        [''T.MT'', ''T.MTS'', ''T.PK'', ''T.PKS'', ''T.VLC'', ''T.NTK'']),
     (''mountains_low'',
        [''T.HLL'', ''T.HLLS'', ''T.RDGE'', ''T.SPUR'', ''T.UPLD'', ''T.MESA'']),
     (''mountains_all'',
        [''T.MT'', ''T.MTS'', ''T.PK'', ''T.PKS'', ''T.VLC'', ''T.NTK'', ''T.HLL'', ''T.HLLS'',
         ''T.RDGE'', ''T.SPUR'', ''T.UPLD'']),
     (''underground_natural'',
        [''S.CAVE'', ''S.BUR'', ''R.TNLN'', ''H.LKSB'']),
     (''canyons_and_gorges'',
        [''T.CNYN'', ''T.GRGE'', ''T.VALG'', ''T.RVN'', ''T.FSR'']),
     (''rocky_terrain'',
        [''T.RK'', ''T.RKS'', ''T.BLDR'', ''T.SCRP'', ''T.TAL'', ''T.KRST'', ''T.LAVA'']),
     (''deserts_and_barrens'',
        [''T.DSRT'', ''T.ERG'', ''T.HMDA'', ''T.REG'', ''L.LAND'', ''L.SALT'', ''T.BDLD'']),
     (''water_freshwater_large'',
        [''H.LK'', ''H.LKS'', ''H.RSV'', ''H.LGN'']),
     (''water_freshwater_moving'',
        [''H.STM'', ''H.STMS'', ''H.CNL'', ''H.RPDS'', ''H.FLLS'']),
     (''water_coastal'',
        [''H.SEA'', ''H.OCN'', ''H.STRT'', ''H.BAY'', ''H.GULF'', ''H.FJD'', ''H.SD'',
         ''T.BCH'']),
     (''water_islands'',
        [''T.ISL'', ''T.ISLS'', ''T.ISLET'', ''T.ATOL'']),
     (''water_wetlands'',
        [''H.SWMP'', ''H.MRSH'', ''H.BOG'', ''V.TUND'', ''H.WTLD'', ''L.PEAT'']),
     (''transport_roads'',
        [''R.RD'', ''R.ST'', ''R.TRL'', ''R.CSWY'']),
     (''transport_railways'',
        [''R.RR'', ''R.RSTN'', ''R.RSTP'', ''R.RYD'']),
     (''transport_bridges_tunnels'',
        [''S.BDG'', ''R.TNL'', ''R.TNLRD'', ''R.TNLRR'']),
     (''transport_hubs'',
        [''S.AIRP'', ''L.PRT'', ''S.FYT'', ''S.RSTN'', ''S.BUSTN'', ''S.MAR''])]"

text \<open>
  The eight moon phase icons, by name (the source holds the emoji), in the order of the
  array \<open>moonIcons\<close>.
\<close>

datatype moonIcon =
  NewMoon | WaxingCrescent | FirstQuarter | WaxingGibbous
  | FullMoon | WaningGibbous | LastQuarter | WaningCrescent

section \<open>Calendar and time of day (time.js)\<close>

definition INACTIVE_TIME_PENALTY :: real where
  "INACTIVE_TIME_PENALTY = 0.05"

definition getDateSeed :: "appState \<Rightarrow> string" where
  "getDateSeed a =
     (let d = currentDate a;
          year = getUTCFullYear d;
          month = padStart2 (String_of_int (getUTCMonth d + 1));
          day = padStart2 (String_of_int (getUTCDate d))
      in String_of_int year @ ''-'' @ month @ ''-'' @ day)"

text \<open>
  \<open>getCurrentTime\<close>: the application date with a time of day set by \<open>setHours\<close>, the
  forced one or the wall clock's \<open>now\<close>. Its callers read the local hours and minutes
  only, so the result is that local time of day (\<open>getHours\<close> after \<open>setHours(h, ...)\<close> is
  \<open>h\<close>; a local time that a daylight-saving switch skips is outside the model).
\<close>

definition getCurrentTime :: "debugState \<Rightarrow> localTime \<Rightarrow> localTime" where
  "getCurrentTime d now =
     (case forceTime d of
        Some (hours, minutes) \<Rightarrow>
          \<lparr>getHours = hours, getMinutes = minutes, getSeconds = 0, getMilliseconds = 0\<rparr>
      | None \<Rightarrow>
          \<lparr>getHours = getHours now, getMinutes = getMinutes now,
           getSeconds = getSeconds now, getMilliseconds = getMilliseconds now\<rparr>)"

definition timeToMins :: "localTime \<Rightarrow> nat" where
  "timeToMins time = getHours time * 60 + getMinutes time"

text \<open>
  The \<open>for ... in\<close> loop of \<open>getCurrentPeriodName\<close>: the first period of the table
  that contains the minute, \<open>Day\<close> when there is none.
\<close>

fun firstPeriod :: "(string \<times> period) list \<Rightarrow> nat \<Rightarrow> string" where
  "firstPeriod [] currentTimeInMins = ''Day''"
| "firstPeriod ((periodName, p) # rest) currentTimeInMins =
     (if currentTimeInMins \<ge> period_start p \<and> currentTimeInMins \<le> period_end p
      then periodName
      else firstPeriod rest currentTimeInMins)"

definition getCurrentPeriodName :: "debugState \<Rightarrow> localTime \<Rightarrow> string" where
  "getCurrentPeriodName d now = firstPeriod TIME_PERIODS (timeToMins (getCurrentTime d now))"

definition isPeriod :: "debugState \<Rightarrow> localTime \<Rightarrow> string \<Rightarrow> bool" where
  "isPeriod d now periodName \<longleftrightarrow> getCurrentPeriodName d now = periodName"

definition isNight :: "debugState \<Rightarrow> localTime \<Rightarrow> bool" where
  "isNight d now \<longleftrightarrow> (let h = getHours (getCurrentTime d now) in h \<ge> 21 \<or> h < 6)"

definition isDark :: "debugState \<Rightarrow> localTime \<Rightarrow> bool" where
  "isDark d now \<longleftrightarrow> isPeriod d now ''Evening'' \<or> isNight d now"

definition isWitchingHour :: "debugState \<Rightarrow> localTime \<Rightarrow> bool" where
  "isWitchingHour d now \<longleftrightarrow> getHours (getCurrentTime d now) = 0"

definition LUNAR_MONTH :: real where
  "LUNAR_MONTH = 29.530588853"

text \<open>\<open>new Date(Date.UTC(2000, 0, 6, 18, 14))\<close>: 2000-01-06T18:14Z.\<close>

definition knownNewMoon :: jsDate where
  "knownNewMoon = 947182440000"

definition moonIcons :: "moonIcon list" where
  "moonIcons = [NewMoon, WaxingCrescent, FirstQuarter, WaxingGibbous,
                FullMoon, WaningGibbous, LastQuarter, WaningCrescent]"

text \<open>
  \<open>getMoonPhaseIcon\<close>: the constants \<open>phase\<close> and \<open>index\<close> of its body, then the
  array read.
\<close>

definition moonPhase :: "jsDate \<Rightarrow> real" where
  "moonPhase date =
     (let daysSinceKnownNewMoon = (getTime date - getTime knownNewMoon) / 86400000
      in js_rem daysSinceKnownNewMoon LUNAR_MONTH / LUNAR_MONTH)"

definition moonIndex :: "jsDate \<Rightarrow> int" where
  "moonIndex date = js_rem_int (Math_round (moonPhase date * 8)) 8"

text \<open>The result is \<open>None\<close> where the source returns \<open>undefined\<close>.\<close>

definition getMoonPhaseIcon :: "jsDate \<Rightarrow> moonIcon option" where
  "getMoonPhaseIcon date = array_get moonIcons (moonIndex date)"

definition isFullMoon :: "appState \<Rightarrow> debugState \<Rightarrow> bool" where
  "isFullMoon a d =
     (case forceFullMoon d of
        Some forced \<Rightarrow> forced
      | None \<Rightarrow> getMoonPhaseIcon (currentDate a) = Some FullMoon)"

definition isHalloween :: "appState \<Rightarrow> debugState \<Rightarrow> bool" where
  "isHalloween a d =
     (case forceHalloween d of
        Some forced \<Rightarrow> forced
      | None \<Rightarrow> getUTCMonth (currentDate a) = 9 \<and> getUTCDate (currentDate a) = 31)"

definition isMidsummer :: "appState \<Rightarrow> bool" where
  "isMidsummer a \<longleftrightarrow> getUTCMonth (currentDate a) = 5 \<and> getUTCDate (currentDate a) = 21"

definition isYule :: "appState \<Rightarrow> bool" where
  "isYule a \<longleftrightarrow> getUTCMonth (currentDate a) = 11"

definition getCurrentSeason :: "appState \<Rightarrow> debugState \<Rightarrow> string" where
  "getCurrentSeason a d =
     (if forceSeason d \<noteq> ''auto'' then forceSeason d
      else let month = getUTCMonth (currentDate a) in
        if month \<ge> 2 \<and> month \<le> 4 then ''Spring''
        else if month \<ge> 5 \<and> month \<le> 7 then ''Summer''
        else if month \<ge> 8 \<and> month \<le> 10 then ''Fall''
        else ''Winter'')"

text \<open>
  The ramp of one period that contains the current minute: the body of the inner
  \<open>if\<close> of \<open>getTimeMultiplier\<close>, up to the comparison with \<open>highestMultiplier\<close>.
\<close>

definition currentMultiplier :: "period \<Rightarrow> nat \<Rightarrow> real" where
  "currentMultiplier p currentTimeInMins =
     (let maxBonus = period_multiplier p - 1.0 in
      if currentTimeInMins \<le> period_peak p then
        let duration = int (period_peak p) - int (period_start p);
            progress = (if duration > 0
                        then (real currentTimeInMins - real (period_start p)) / real_of_int duration
                        else 1)
        in 1.0 + maxBonus * progress ^ 2
      else
        let duration = int (period_end p) - int (period_peak p);
            progress = (if duration > 0
                        then (real (period_end p) - real currentTimeInMins) / real_of_int duration
                        else 1)
        in 1.0 + maxBonus * progress ^ 2)"

text \<open>
  One round of the \<open>forEach\<close> of \<open>getTimeMultiplier\<close>, on the running
  \<open>highestMultiplier\<close>. A name that is not a period is skipped; so is a name that
  \<open>TIME_PERIODS\<close> only inherits, since the inherited member has no \<open>start\<close> and both
  comparisons with \<open>undefined\<close> are false.
\<close>

definition timeStep :: "nat \<Rightarrow> string \<Rightarrow> real \<Rightarrow> real" where
  "timeStep currentTimeInMins periodName highestMultiplier =
     (case lookup TIME_PERIODS periodName of
        Own p \<Rightarrow>
          if currentTimeInMins \<ge> period_start p \<and> currentTimeInMins \<le> period_end p then
            (if currentMultiplier p currentTimeInMins > highestMultiplier
             then currentMultiplier p currentTimeInMins
             else highestMultiplier)
          else highestMultiplier
      | Inherited \<Rightarrow> highestMultiplier
      | Undefined \<Rightarrow> highestMultiplier)"

definition getTimeMultiplier :: "debugState \<Rightarrow> localTime \<Rightarrow> string list \<Rightarrow> real" where
  "getTimeMultiplier d now monsterActiveTimes =
     (if ''any'' \<in> set monsterActiveTimes then 1.0
      else
        let currentTimeInMins = timeToMins (getCurrentTime d now);
            highestMultiplier = fold (timeStep currentTimeInMins) monsterActiveTimes 0
        in if highestMultiplier = 0 then INACTIVE_TIME_PENALTY else highestMultiplier)"

section \<open>The rules engine (monster.js)\<close>

record restriction =
  requiresFullMoon :: bool
  requiresDark :: bool
  requiresNight :: bool

text \<open>
  A monster, as loaded from \<open>monsters.json\<close> (the fields the engine reads; \<open>id\<close> and
  the output's \<open>locations\<close> carry a prime, the names being taken). \<open>restriction\<close>,
  \<open>bonuses\<close> and \<open>penalties\<close> may be missing. \<open>overrides t n\<close> is
  \<open>this.overrides?.[t]?.[n]\<close>, \<open>None\<close> where any of the three is missing.
\<close>

record monster =
  id' :: string
  spottingChance :: real
  activeSeasons :: "string list"
  activeTime :: "string list"
  restriction :: "restriction option"
  bonuses :: "string list option"
  penalties :: "string list option"
  overrides :: "modifierType \<Rightarrow> string \<Rightarrow> real option"
  locations :: "string list"

text \<open>
  A step of the breakdown: its \<open>type\<close> is the constructor, followed by the \<open>label\<close>,
  the \<open>subLabel\<close> where the step may have one, and the \<open>value\<close>; an \<open>impossible\<close>
  step holds its \<open>reason\<close>.
\<close>

datatype step =
  Final string real
  | Base string real
  | Multiplier string "string option" real
  | Bonus string real
  | Penalty string real
  | Impossible string

record explained =
  event :: "string option"
  breakdown :: "step list"

record spottingData = explained +
  chance :: real

record modifierDefinition =
  condition :: "appState \<Rightarrow> debugState \<Rightarrow> localTime \<Rightarrow> bool"
  label :: string

definition MODIFIER_DEFINITIONS :: "modifierType \<Rightarrow> (string \<times> modifierDefinition) list" where
  "MODIFIER_DEFINITIONS t =
     (case t of
        Bonuses \<Rightarrow>
          [(''witchingHour'',
              \<lparr>condition = (\<lambda>a d now. isWitchingHour d now), label = ''Witching Hour''\<rparr>),
           (''midnight'',
              \<lparr>condition = (\<lambda>a d now. isPeriod d now ''Midnight''), label = ''Midnight''\<rparr>),
           (''fullMoon'',
              \<lparr>condition = (\<lambda>a d now. isFullMoon a d), label = ''Full Moon''\<rparr>),
           (''yule'',
              \<lparr>condition = (\<lambda>a d now. isYule a), label = ''Yule Season''\<rparr>),
           (''midsummer'',
              \<lparr>condition = (\<lambda>a d now. isMidsummer a), label = ''Midsummer''\<rparr>)]
      | Penalties \<Rightarrow>
          [(''day'',
              \<lparr>condition = (\<lambda>a d now. isPeriod d now ''Day''), label = ''Daylight''\<rparr>),
           (''evening'',
              \<lparr>condition = (\<lambda>a d now. isPeriod d now ''Evening''), label = ''Evening''\<rparr>),
           (''earlyMorning'',
              \<lparr>condition = (\<lambda>a d now. isPeriod d now ''Early Morning''),
               label = ''Early Morning''\<rparr>),
           (''night'',
              \<lparr>condition = (\<lambda>a d now. isPeriod d now ''Night''), label = ''Night''\<rparr>),
           (''lateNight'',
              \<lparr>condition = (\<lambda>a d now. isPeriod d now ''Late Night''), label = ''Late Night''\<rparr>)])"

text \<open>
  \<open>_checkRestrictions\<close>: \<open>{met: true}\<close> or \<open>{met: false, reason}\<close>.
  \<open>failedRestrictions\<close> is its array \<open>failed\<close>, empty when the monster has no
  \<open>restriction\<close>.
\<close>

datatype restrictionCheck = Met | NotMet string

definition failedRestrictions ::
  "monster \<Rightarrow> appState \<Rightarrow> debugState \<Rightarrow> localTime \<Rightarrow> string list" where
  "failedRestrictions m a d now =
     (case restriction m of
        None \<Rightarrow> []
      | Some r \<Rightarrow>
          (if requiresFullMoon r \<and> \<not> isFullMoon a d then [''Full Moon''] else [])
          @ (if requiresDark r \<and> \<not> isDark d now then [''Darkness''] else [])
          @ (if requiresNight r \<and> \<not> isNight d now then [''Night''] else []))"

definition checkRestrictions ::
  "monster \<Rightarrow> appState \<Rightarrow> debugState \<Rightarrow> localTime \<Rightarrow> restrictionCheck" where
  "checkRestrictions m a d now =
     (let failed = failedRestrictions m a d now in
      if failed \<noteq> [] then NotMet (''Requires: '' @ join '', '' failed) else Met)"

text \<open>
  \<open>x || y\<close> on optional numbers: \<open>undefined\<close> and \<open>0\<close> are falsy, so the left operand
  is the result only when it is a number other than \<open>0\<close>.
\<close>

definition orElse :: "real option \<Rightarrow> real option \<Rightarrow> real option" where
  "orElse x y = (case x of Some v \<Rightarrow> if v \<noteq> 0 then Some v else y | None \<Rightarrow> y)"

text \<open>
  \<open>_evaluateModifier\<close>: \<open>{active: false}\<close> or \<open>{active: true, value, label}\<close>. For a
  name that \<open>MODIFIER_DEFINITIONS[type]\<close> only inherits, \<open>definition\<close> is truthy and
  \<open>definition.condition\<close> is \<open>undefined\<close>: calling it throws. A \<open>value\<close> that is
  \<open>undefined\<close> would turn the chance into \<open>NaN\<close>, which the model reports as
  \<open>NotANumber\<close>.
\<close>

datatype modifierInfo = Inactive | Active real string

definition evaluateModifier ::
  "monster \<Rightarrow> appState \<Rightarrow> debugState \<Rightarrow> localTime \<Rightarrow> string \<Rightarrow> modifierType
   \<Rightarrow> error + modifierInfo" where
  "evaluateModifier m a d now modifierName t =
     (case lookup (MODIFIER_DEFINITIONS t) modifierName of
        Undefined \<Rightarrow> Inr Inactive
      | Inherited \<Rightarrow> Inl TypeError
      | Own defn \<Rightarrow>
          if condition defn a d now then
            (case orElse (overrides m t modifierName)
                    (map_of (GLOBAL_MODIFIERS t) modifierName) of
               Some v \<Rightarrow> Inr (Active v (label defn))
             | None \<Rightarrow> Inl NotANumber)
          else Inr Inactive)"

text \<open>The two \<open>forEach\<close> loops, on the running chance and the breakdown.\<close>

fun applyBonuses ::
  "monster \<Rightarrow> appState \<Rightarrow> debugState \<Rightarrow> localTime \<Rightarrow> string list \<Rightarrow> real \<times> step list
   \<Rightarrow> error + real \<times> step list" where
  "applyBonuses m a d now [] (c, b) = Inr (c, b)"
| "applyBonuses m a d now (bonusName # rest) (c, b) =
     (case evaluateModifier m a d now bonusName Bonuses of
        Inl e \<Rightarrow> Inl e
      | Inr Inactive \<Rightarrow> applyBonuses m a d now rest (c, b)
      | Inr (Active v l) \<Rightarrow> applyBonuses m a d now rest (c + v, b @ [Bonus l v]))"

fun applyPenalties ::
  "monster \<Rightarrow> appState \<Rightarrow> debugState \<Rightarrow> localTime \<Rightarrow> string list \<Rightarrow> real \<times> step list
   \<Rightarrow> error + real \<times> step list" where
  "applyPenalties m a d now [] (c, b) = Inr (c, b)"
| "applyPenalties m a d now (penaltyName # rest) (c, b) =
     (case evaluateModifier m a d now penaltyName Penalties of
        Inl e \<Rightarrow> Inl e
      | Inr Inactive \<Rightarrow> applyPenalties m a d now rest (c, b)
      | Inr (Active v l) \<Rightarrow> applyPenalties m a d now rest (c * v, b @ [Penalty l v]))"

text \<open>
  The branch of \<open>calculateSpottingData\<close> for a day that is not Halloween, after the
  restrictions are met: base, season, time, bonuses, penalties.
\<close>

definition seasonStep ::
  "monster \<Rightarrow> appState \<Rightarrow> debugState \<Rightarrow> real \<times> step list \<Rightarrow> real \<times> step list" where
  "seasonStep m a d cb =
     (let currentSeason = getCurrentSeason a d in
      if currentSeason \<notin> set (activeSeasons m)
      then (fst cb / 2, snd cb @ [Multiplier ''Season'' (Some currentSeason) 0.5])
      else cb)"

definition timeOfDayStep ::
  "monster \<Rightarrow> debugState \<Rightarrow> localTime \<Rightarrow> real \<times> step list \<Rightarrow> real \<times> step list" where
  "timeOfDayStep m d now cb =
     (let timeMultiplier = getTimeMultiplier d now (activeTime m) in
      if timeMultiplier \<noteq> 1.0
      then (fst cb * timeMultiplier,
            snd cb @ [Multiplier ''Time'' (Some (getCurrentPeriodName d now)) timeMultiplier])
      else cb)"

definition regularRules ::
  "monster \<Rightarrow> appState \<Rightarrow> debugState \<Rightarrow> localTime \<Rightarrow> error + real \<times> step list" where
  "regularRules m a d now =
     (let cb0 = (spottingChance m, [Base ''Base Chance'' (spottingChance m)]);
          cb1 = seasonStep m a d cb0;
          cb2 = timeOfDayStep m d now cb1
      in case (case bonuses m of
                 None \<Rightarrow> Inr cb2
               | Some names \<Rightarrow> applyBonuses m a d now names cb2) of
           Inl e \<Rightarrow> Inl e
         | Inr cb3 \<Rightarrow>
             (case penalties m of
                None \<Rightarrow> Inr cb3
              | Some names \<Rightarrow> applyPenalties m a d now names cb3))"

text \<open>
  The end of \<open>calculateSpottingData\<close>, common to both branches: the debug multiplier,
  the clamp \<open>Math.max(0, Math.min(chance, 1))\<close> and the \<open>final\<close> step put in front.
\<close>

definition finish :: "debugState \<Rightarrow> string option \<Rightarrow> real \<times> step list \<Rightarrow> spottingData" where
  "finish d ev cb =
     (let cb' = (if multiplier d \<noteq> 1
                 then (fst cb * multiplier d,
                       snd cb @ [Multiplier ''Debug Multiplier'' None (multiplier d)])
                 else cb);
          finalChance = max 0 (min (fst cb') 1)
      in \<lparr>event = ev, breakdown = Final ''Final Chance'' finalChance # snd cb',
          chance = finalChance\<rparr>)"

definition calculateSpottingData ::
  "monster \<Rightarrow> appState \<Rightarrow> debugState \<Rightarrow> localTime \<Rightarrow> error + spottingData" where
  "calculateSpottingData m a d now =
     (if isHalloween a d then
        let multiplier = GLOBAL_MODIFIERS_events_halloween in
        Inr (finish d (Some ''halloween'')
               (spottingChance m * multiplier,
                [Multiplier ''Global Multiplier'' None multiplier]))
      else
        case checkRestrictions m a d now of
          NotMet reason \<Rightarrow>
            Inr \<lparr>event = None, breakdown = [Impossible reason], chance = 0\<rparr>
        | Met \<Rightarrow>
            (case regularRules m a d now of
               Inl e \<Rightarrow> Inl e
             | Inr cb \<Rightarrow> Inr (finish d None cb)))"

section \<open>The simulation engine (spottingCalculator.js)\<close>

definition getLikelihood :: "int \<Rightarrow> string" where
  "getLikelihood n =
     (if n \<le> 0 then ''Very Low''
      else if n \<le> 2 then ''Low''
      else if n \<le> 5 then ''Medium''
      else ''High'')"

text \<open>
  The seeded generator of the \<open>seedrandom\<close> library is not part of the repository. A
  generator is modelled as the sequence of the numbers it returns, \<open>rng k\<close> being the
  result of call number \<open>k\<close> (from 0), and a function that calls it takes the number of
  calls made so far and returns the new one. \<open>new Math.seedrandom(seed)\<close> is a parameter
  \<open>seedrandom :: string \<Rightarrow> nat \<Rightarrow> real\<close> of the engine.
\<close>

type_synonym rng = "nat \<Rightarrow> real"

text \<open>A placement: the spread copy of the base location with \<open>lat\<close> and \<open>lng\<close> added.\<close>

record spottedLocation = location +
  lat :: real
  lng :: real

text \<open>\<open>Set.prototype.add\<close>: a set keeps its members in the order they were added.\<close>

definition Set_add :: "'a \<Rightarrow> 'a list \<Rightarrow> 'a list" where
  "Set_add x xs = (if x \<in> set xs then xs else xs @ [x])"

text \<open>
  The first \<open>forEach\<close> of \<open>generateMonsterLocations\<close>. An identifier that
  \<open>LOCATION_GROUPS\<close> only inherits is truthy and has no \<open>forEach\<close>: the call throws.
\<close>

fun resolveFeatureCodes :: "string list \<Rightarrow> string list \<Rightarrow> error + string list" where
  "resolveFeatureCodes [] resolvedFeatureCodes = Inr resolvedFeatureCodes"
| "resolveFeatureCodes (locIdentifier # rest) resolvedFeatureCodes =
     (case lookup LOCATION_GROUPS locIdentifier of
        Own codes \<Rightarrow> resolveFeatureCodes rest (fold Set_add codes resolvedFeatureCodes)
      | Inherited \<Rightarrow> Inl TypeError
      | Undefined \<Rightarrow> resolveFeatureCodes rest (Set_add locIdentifier resolvedFeatureCodes))"

text \<open>The second \<open>forEach\<close>: \<open>m.get(code) || []\<close> on the index the code selects.\<close>

definition locationsOf :: "appState \<Rightarrow> string \<Rightarrow> location list" where
  "locationsOf a c =
     (if CHR ''.'' \<in> set c
      then (case locationsByFeatureCode a c of Some ls \<Rightarrow> ls | None \<Rightarrow> [])
      else (case locationsByFeatureClass a c of Some ls \<Rightarrow> ls | None \<Rightarrow> []))"

definition buildLocationPool :: "appState \<Rightarrow> string list \<Rightarrow> location list" where
  "buildLocationPool a resolvedFeatureCodes =
     fold (\<lambda>c locationPool. locationPool @ locationsOf a c) resolvedFeatureCodes []"

text \<open>
  \<open>Math.floor(rng() * locationPool.length)\<close> and \<open>c + (rng() - 0.5) * 0.01\<close> as the
  code computes them, \<open>r\<close> being the number the generator returned: every operation
  rounds its result, the literal \<open>0.5\<close> is a double and the literal \<open>0.01\<close> stands for
  the double nearest to it. The length of an array is below \<open>2\<^sup>3\<^sup>2\<close>, hence a double.
\<close>

definition randomIndex :: "real \<Rightarrow> nat \<Rightarrow> int" where
  "randomIndex r len = Math_floor (times64 r (real len))"

definition jitter :: "real \<Rightarrow> real \<Rightarrow> real" where
  "jitter c r = plus64 c (times64 (minus64 r 0.5) (fl64 0.01))"

text \<open>
  The \<open>for\<close> loop, \<open>n\<close> rounds from call number \<open>pos\<close>: three calls of the generator a
  round. An index outside the pool reads \<open>undefined\<close>, and \<open>baseLocation.latitude\<close>
  throws.
\<close>

fun placements :: "location list \<Rightarrow> rng \<Rightarrow> nat \<Rightarrow> nat \<Rightarrow> error + spottedLocation list" where
  "placements locationPool rng pos 0 = Inr []"
| "placements locationPool rng pos (Suc n) =
     (case array_get locationPool (randomIndex (rng pos) (length locationPool)) of
        None \<Rightarrow> Inl TypeError
      | Some baseLocation \<Rightarrow>
          (case placements locationPool rng (pos + 3) n of
             Inl e \<Rightarrow> Inl e
           | Inr monsterLocations \<Rightarrow>
               Inr (location.extend baseLocation
                      (spottedLocation.fields
                         (jitter (latitude baseLocation) (rng (pos + 1)))
                         (jitter (longitude baseLocation) (rng (pos + 2))))
                    # monsterLocations)))"

text \<open>
  \<open>generateMonsterLocations\<close>, with the generator at call number \<open>pos\<close>: the
  placements and the call number it leaves the generator at.
\<close>

definition generateMonsterLocations ::
  "appState \<Rightarrow> monster \<Rightarrow> nat \<Rightarrow> rng \<Rightarrow> nat \<Rightarrow> error + spottedLocation list \<times> nat" where
  "generateMonsterLocations a m n rng pos =
     (if n = 0 then Inr ([], pos)
      else
        case resolveFeatureCodes (locations m) [] of
          Inl e \<Rightarrow> Inl e
        | Inr resolvedFeatureCodes \<Rightarrow>
            let locationPool = buildLocationPool a resolvedFeatureCodes in
            if length locationPool = 0 then Inr ([], pos)
            else
              (case placements locationPool rng pos n of
                 Inl e \<Rightarrow> Inl e
               | Inr monsterLocations \<Rightarrow> Inr (monsterLocations, pos + 3 * n)))"

record spotted = explained +
  count :: nat
  locations' :: "spottedLocation list"
  likelihood :: string
  currentChance :: real

definition maxSpotted :: nat where
  "maxSpotted = 40"

text \<open>The trials loop: \<open>spottedCount\<close> after the rounds \<open>0 .. n - 1\<close>.\<close>

primrec trials :: "rng \<Rightarrow> real \<Rightarrow> nat \<Rightarrow> nat" where
  "trials monsterRNG c 0 = 0"
| "trials monsterRNG c (Suc i) =
     (if monsterRNG i < c then trials monsterRNG c i + 1 else trials monsterRNG c i)"

definition isImpossibleStep :: "step \<Rightarrow> bool" where
  "isImpossibleStep s = (case s of Impossible reason \<Rightarrow> True | _ \<Rightarrow> False)"

text \<open>
  The body of the \<open>forEach\<close> of \<open>calculateSpottedMonsters\<close> for one monster: the
  record stored under its id, and the number of calls made to its generator.
\<close>

definition spotMonster ::
  "(string \<Rightarrow> rng) \<Rightarrow> appState \<Rightarrow> debugState \<Rightarrow> localTime \<Rightarrow> string \<Rightarrow> monster
   \<Rightarrow> error + spotted \<times> nat" where
  "spotMonster seedrandom a d now dateSeed m =
     (let monsterRNG = seedrandom (dateSeed @ id' m) in
      case calculateSpottingData m a d now of
        Inl e \<Rightarrow> Inl e
      | Inr sd \<Rightarrow>
          if chance sd \<le> 0 then
            let isImpossible = list_ex isImpossibleStep (breakdown sd) in
            Inr (\<lparr>event = event sd, breakdown = breakdown sd, count = 0, locations' = [],
                  likelihood = (if isImpossible then ''Impossible'' else ''Very Low''),
                  currentChance = 0\<rparr>, 0)
          else
            let spottedCount = trials monsterRNG (chance sd) maxSpotted in
            (case generateMonsterLocations a m spottedCount monsterRNG maxSpotted of
               Inl e \<Rightarrow> Inl e
             | Inr (ls, calls) \<Rightarrow>
                 Inr (\<lparr>event = event sd, breakdown = breakdown sd, count = spottedCount,
                       locations' = ls, likelihood = getLikelihood (int spottedCount),
                       currentChance = chance sd\<rparr>, calls)))"

text \<open>
  \<open>calculateSpottedMonsters\<close>: the object \<open>calculatedData\<close>, from the id of a monster
  to its record. An exception in one round ends the whole call.
\<close>

fun forEachMonster ::
  "(string \<Rightarrow> rng) \<Rightarrow> appState \<Rightarrow> debugState \<Rightarrow> localTime \<Rightarrow> string \<Rightarrow> monster list
   \<Rightarrow> (string \<rightharpoonup> spotted) \<Rightarrow> error + (string \<rightharpoonup> spotted)" where
  "forEachMonster seedrandom a d now dateSeed [] calculatedData = Inr calculatedData"
| "forEachMonster seedrandom a d now dateSeed (m # rest) calculatedData =
     (case spotMonster seedrandom a d now dateSeed m of
        Inl e \<Rightarrow> Inl e
      | Inr (r, calls) \<Rightarrow>
          forEachMonster seedrandom a d now dateSeed rest (calculatedData(id' m \<mapsto> r)))"

definition calculateSpottedMonsters ::
  "(string \<Rightarrow> rng) \<Rightarrow> appState \<Rightarrow> debugState \<Rightarrow> localTime \<Rightarrow> monster list
   \<Rightarrow> error + (string \<rightharpoonup> spotted)" where
  "calculateSpottedMonsters seedrandom a d now monsters =
     (let dateSeed = getDateSeed a in
      forEachMonster seedrandom a d now dateSeed monsters Map.empty)"

section \<open>Location generation on a store of objects\<close>

text \<open>
  The functions above take the locations of the pool as values. In the program they are
  objects held by reference: the two indexes of \<open>appState\<close> and the array
  \<open>locationPool\<close> hold references to the same objects, and \<open>{...baseLocation, lat, lng}\<close>
  creates a new object. To state what \<open>generateMonsterLocations\<close> does to the pool it is
  modelled once more on a store: an object is the location fields with, when it has them,
  the properties \<open>lat\<close> and \<open>lng\<close>; \<open>objects\<close> gives the object at a reference,
  \<open>allocated\<close> counts the objects created so far, and a new object takes the next
  reference.
\<close>

type_synonym ref = nat

datatype object = Object (fieldsOf: location) (latLngOf: "(real \<times> real) option")

record objectStore =
  objects :: "ref \<Rightarrow> object"
  allocated :: nat
  refsByFeatureCode :: "string \<rightharpoonup> ref list"
  refsByFeatureClass :: "string \<rightharpoonup> ref list"

definition refsOf :: "objectStore \<Rightarrow> string \<Rightarrow> ref list" where
  "refsOf st c =
     (if CHR ''.'' \<in> set c
      then (case refsByFeatureCode st c of Some rs \<Rightarrow> rs | None \<Rightarrow> [])
      else (case refsByFeatureClass st c of Some rs \<Rightarrow> rs | None \<Rightarrow> []))"

definition buildRefPool :: "objectStore \<Rightarrow> string list \<Rightarrow> ref list" where
  "buildRefPool st resolvedFeatureCodes =
     fold (\<lambda>c locationPool. locationPool @ refsOf st c) resolvedFeatureCodes []"

text \<open>
  The spread copy: the new object has the fields of the base and its own \<open>lat\<close> and
  \<open>lng\<close>; it is stored at the next reference, and no other reference is written.
\<close>

definition newObject :: "object \<Rightarrow> objectStore \<Rightarrow> objectStore" where
  "newObject ob st =
     st\<lparr>objects := (objects st)(allocated st := ob), allocated := allocated st + 1\<rparr>"

fun placementsInStore ::
  "ref list \<Rightarrow> rng \<Rightarrow> nat \<Rightarrow> nat \<Rightarrow> objectStore \<Rightarrow> error + ref list \<times> objectStore" where
  "placementsInStore locationPool rng pos 0 st = Inr ([], st)"
| "placementsInStore locationPool rng pos (Suc n) st =
     (case array_get locationPool (randomIndex (rng pos) (length locationPool)) of
        None \<Rightarrow> Inl TypeError
      | Some baseRef \<Rightarrow>
          let baseLocation = fieldsOf (objects st baseRef);
              spottedLocation =
                Object baseLocation
                  (Some (jitter (latitude baseLocation) (rng (pos + 1)),
                         jitter (longitude baseLocation) (rng (pos + 2))))
          in (case placementsInStore locationPool rng (pos + 3) n
                     (newObject spottedLocation st) of
                Inl e \<Rightarrow> Inl e
              | Inr (monsterLocations, st') \<Rightarrow> Inr (allocated st # monsterLocations, st')))"

text \<open>
  \<open>generateMonsterLocations\<close> on the store: the references of the placements, the call
  number the generator is left at, and the store after the call.
\<close>

definition generateMonsterLocationsInStore ::
  "objectStore \<Rightarrow> monster \<Rightarrow> nat \<Rightarrow> rng \<Rightarrow> nat \<Rightarrow> error + (ref list \<times> nat) \<times> objectStore" where
  "generateMonsterLocationsInStore st m n rng pos =
     (if n = 0 then Inr (([], pos), st)
      else
        case resolveFeatureCodes (locations m) [] of
          Inl e \<Rightarrow> Inl e
        | Inr resolvedFeatureCodes \<Rightarrow>
            let locationPool = buildRefPool st resolvedFeatureCodes in
            if length locationPool = 0 then Inr (([], pos), st)
            else
              (case placementsInStore locationPool rng pos n st of
                 Inl e \<Rightarrow> Inl e
               | Inr (monsterLocations, st') \<Rightarrow> Inr ((monsterLocations, pos + 3 * n), st')))"

text \<open>
  The values a store stands for: the application state whose indexes hold the fields of
  the referenced objects, and the placement that an object with \<open>lat\<close> and \<open>lng\<close> is.
\<close>

definition appStateOf :: "jsDate \<Rightarrow> objectStore \<Rightarrow> appState" where
  "appStateOf t st =
     \<lparr>currentDate = t,
      locationsByFeatureCode =
        (\<lambda>c. map_option (map (\<lambda>r. fieldsOf (objects st r))) (refsByFeatureCode st c)),
      locationsByFeatureClass =
        (\<lambda>c. map_option (map (\<lambda>r. fieldsOf (objects st r))) (refsByFeatureClass st c))\<rparr>"

definition placementOf :: "object \<Rightarrow> spottedLocation" where
  "placementOf ob =
     (case latLngOf ob of
        Some (la, lg) \<Rightarrow> location.extend (fieldsOf ob) (spottedLocation.fields la lg)
      | None \<Rightarrow>
          location.extend (fieldsOf ob)
            (spottedLocation.fields (latitude (fieldsOf ob)) (longitude (fieldsOf ob))))"

section \<open>Concrete inputs\<close>

text \<open>The debug state as \<open>state.js\<close> initialises it: no override.\<close>

definition initialDebugState :: debugState where
  "initialDebugState =
     \<lparr>multiplier = 1, forceTime = None, forceFullMoon = None, forceSeason = ''auto'',
      forceHalloween = None\<rparr>"

definition clockAt :: "nat \<Rightarrow> nat \<Rightarrow> localTime" where
  "clockAt h m = \<lparr>getHours = h, getMinutes = m, getSeconds = 0, getMilliseconds = 0\<rparr>"

text \<open>An application state with no location loaded, at the date \<open>t\<close>.\<close>

definition emptyPoolAt :: "jsDate \<Rightarrow> appState" where
  "emptyPoolAt t =
     \<lparr>currentDate = t, locationsByFeatureCode = Map.empty,
      locationsByFeatureClass = Map.empty\<rparr>"

text \<open>
  Four dates, as \<open>parseUrlHash\<close> builds them from \<open>date=2024-10-31\<close>,
  \<open>date=2024-06-15\<close>, \<open>date=2024-06-21\<close> and \<open>date=1999-12-20\<close>: midnight UTC of
  the day.
\<close>

definition halloween2024 :: jsDate where
  "halloween2024 = 1730332800000"

definition june15of2024 :: jsDate where
  "june15of2024 = 1718409600000"

definition midsummer2024 :: jsDate where
  "midsummer2024 = 1718928000000"

definition december20of1999 :: jsDate where
  "december20of1999 = 945648000000"

text \<open>A stand-in for the seeded generator: every call returns \<open>x\<close>, whatever the seed.\<close>

definition constantStream :: "real \<Rightarrow> string \<Rightarrow> rng" where
  "constantStream x seed k = x"

definition allSeasons :: "string list" where
  "allSeasons = [''Spring'', ''Summer'', ''Fall'', ''Winter'']"

text \<open>A monster of the night, with no restriction and no override.\<close>

definition troll :: monster where
  "troll =
     \<lparr>id' = ''troll'', spottingChance = 0.1, activeSeasons = allSeasons,
      activeTime = [''Night''], restriction = None, bonuses = Some [''midsummer''],
      penalties = Some [''day''], overrides = (\<lambda>t n. None), locations = [''forests_all'']\<rparr>"

text \<open>A monster that requires the full moon and the night.\<close>

definition werewolf :: monster where
  "werewolf =
     \<lparr>id' = ''werewolf'', spottingChance = 0.2, activeSeasons = allSeasons,
      activeTime = [''any''],
      restriction = Some \<lparr>requiresFullMoon = True, requiresDark = False, requiresNight = True\<rparr>,
      bonuses = Some [''fullMoon''], penalties = None, overrides = (\<lambda>t n. None),
      locations = [''forests_dense'']\<rparr>"

text \<open>
  The werewolf with a per-monster override of 0 for the \<open>fullMoon\<close> bonus, and the
  debug state that forces the full moon.
\<close>

definition zeroOverride :: monster where
  "zeroOverride =
     werewolf\<lparr>overrides :=
       (\<lambda>t n. if t = Bonuses \<and> n = ''fullMoon'' then Some 0 else None)\<rparr>"

definition forcedFullMoon :: debugState where
  "forcedFullMoon = initialDebugState\<lparr>forceFullMoon := Some True\<rparr>"

text \<open>
  A pool of one location, a forest (feature code \<open>V.FRST\<close>), as values and as a store
  of one object, and the store after one placement by a generator that returns 0.
\<close>

definition forest :: location where
  "forest =
     \<lparr>geonameid = 1, name = ''Skogen'', latitude = 59, longitude = 18,
      featureClass = ''V'', fullFeatureCode = ''V.FRST''\<rparr>"

definition forestPoolAt :: "jsDate \<Rightarrow> appState" where
  "forestPoolAt t =
     \<lparr>currentDate = t, locationsByFeatureCode = [''V.FRST'' \<mapsto> [forest]],
      locationsByFeatureClass = [''V'' \<mapsto> [forest]]\<rparr>"

definition forestStore :: objectStore where
  "forestStore =
     \<lparr>objects = (\<lambda>r. Object forest None), allocated = 1,
      refsByFeatureCode = [''V.FRST'' \<mapsto> [0]], refsByFeatureClass = [''V'' \<mapsto> [0]]\<rparr>"

definition jittered :: object where
  "jittered =
     Object forest (Some (8302808125522575 / 2 ^ 47, 5065142205908255 / 2 ^ 48))"

definition forestStoreAfter :: objectStore where
  "forestStoreAfter =
     forestStore\<lparr>objects := (objects forestStore)(1 := jittered), allocated := 2\<rparr>"

text \<open>The debug state with the time of day forced to 22:30.\<close>

definition forcedTime :: debugState where
  "forcedTime = initialDebugState\<lparr>forceTime := Some (22, 30)\<rparr>"

section \<open>Notions used in the statements\<close>

text \<open>The bonus and penalty names a monster declares.\<close>

definition modifierNames :: "monster \<Rightarrow> string list" where
  "modifierNames m =
     (case bonuses m of None \<Rightarrow> [] | Some ns \<Rightarrow> ns)
     @ (case penalties m of None \<Rightarrow> [] | Some ns \<Rightarrow> ns)"

text \<open>
  The time ramp in the specification's words: the progress toward the peak of a period
  at the minute \<open>t\<close>, the ramp \<open>1 + (peakMultiplier - 1) * progress\<^sup>2\<close>, and the
  periods of \<open>TIME_PERIODS\<close> among the given names whose closed interval contains
  \<open>t\<close>.
\<close>

definition rampProgress :: "period \<Rightarrow> nat \<Rightarrow> real" where
  "rampProgress p t =
     (if t \<le> period_peak p
      then (real t - real (period_start p)) / (real (period_peak p) - real (period_start p))
      else (real (period_end p) - real t) / (real (period_end p) - real (period_peak p)))"

definition rampMultiplier :: "period \<Rightarrow> nat \<Rightarrow> real" where
  "rampMultiplier p t = 1 + (period_multiplier p - 1) * (rampProgress p t)\<^sup>2"

definition matchingPeriods :: "string list \<Rightarrow> nat \<Rightarrow> period list" where
  "matchingPeriods names t =
     [p. n \<leftarrow> names,
         p \<leftarrow> (case map_of TIME_PERIODS n of Some p \<Rightarrow> [p] | None \<Rightarrow> []),
         period_start p \<le> t \<and> t \<le> period_end p]"

text \<open>
  The feature codes a habitat identifier stands for: the members of the group it names,
  or the identifier itself.
\<close>

definition expandIdentifier :: "string \<Rightarrow> string list" where
  "expandIdentifier locIdentifier =
     (case map_of LOCATION_GROUPS locIdentifier of
        Some codes \<Rightarrow> codes
      | None \<Rightarrow> [locIdentifier])"

text \<open>
  The contract of a generator: every number it returns is a double in \<open>[0, 1)\<close>, so
  at most \<open>1 - 2\<^sup>-\<^sup>5\<^sup>3\<close>, the largest double below 1.
\<close>

definition unitInterval :: "rng \<Rightarrow> bool" where
  "unitInterval rng \<longleftrightarrow> (\<forall>k. 0 \<le> rng k \<and> rng k \<le> 1 - 1 / 2 ^ 53)"

text \<open>
  The invariant of a store: the indexes refer to objects that exist.
\<close>

definition allocatedRefs :: "objectStore \<Rightarrow> bool" where
  "allocatedRefs st \<longleftrightarrow>
     (\<forall>c rs. refsByFeatureCode st c = Some rs \<or> refsByFeatureClass st c = Some rs
        \<longrightarrow> (\<forall>r \<in> set rs. r < allocated st))"

text \<open>
  Two wall clocks give the same simulated time of day: the time is forced, or they show
  the same hour and minute.
\<close>

definition sameSimulatedTime :: "debugState \<Rightarrow> localTime \<Rightarrow> localTime \<Rightarrow> bool" where
  "sameSimulatedTime d now1 now2 \<longleftrightarrow>
     forceTime d \<noteq> None \<or>
     getHours now1 = getHours now2 \<and> getMinutes now1 = getMinutes now2"

section \<open>Facts about the dates and the tables\<close>

lemma date_halloween2024:
  "getUTCFullYear halloween2024 = 2024"
  "getUTCMonth halloween2024 = 9"
  "getUTCDate halloween2024 = 31"
  by code_simp+

lemma date_june15of2024:
  "getUTCFullYear june15of2024 = 2024"
  "getUTCMonth june15of2024 = 5"
  "getUTCDate june15of2024 = 15"
  by code_simp+

lemma date_december20of1999:
  "getUTCFullYear december20of1999 = 1999"
  "getUTCMonth december20of1999 = 11"
  "getUTCDate december20of1999 = 20"
  by code_simp+

text \<open>The reference instant is 2000-01-06, 18:14 UTC.\<close>

lemma date_knownNewMoon:
  "getUTCFullYear knownNewMoon = 2000"
  "getUTCMonth knownNewMoon = 0"
  "getUTCDate knownNewMoon = 6"
  "knownNewMoon mod msPerDay = (18 * 60 + 14) * 60000"
  by code_simp+

lemma moonIndex_june15: "moonIndex june15of2024 = 2"
  by code_simp

lemma date_midsummer2024:
  "getUTCFullYear midsummer2024 = 2024"
  "getUTCMonth midsummer2024 = 5"
  "getUTCDate midsummer2024 = 21"
  by code_simp+

section \<open>Evaluating the engine on the concrete inputs\<close>

lemmas time_defs =
  getTimeMultiplier_def timeStep_def currentMultiplier_def timeToMins_def getCurrentTime_def
  INACTIVE_TIME_PENALTY_def getCurrentPeriodName_def isPeriod_def isNight_def isDark_def
  isWitchingHour_def TIME_PERIODS_def

lemmas rules_defs =
  calculateSpottingData_def checkRestrictions_def failedRestrictions_def regularRules_def
  seasonStep_def timeOfDayStep_def finish_def evaluateModifier_def orElse_def lookup_def
  MODIFIER_DEFINITIONS_def GLOBAL_MODIFIERS_def GLOBAL_MODIFIERS_events_halloween_def
  getCurrentSeason_def isHalloween_def isMidsummer_def isYule_def isFullMoon_def
  objectPrototypeKeys_def Let_def

lemma trials_constantStream:
  "trials (constantStream x seed) c n = (if x < c then n else 0)"
  by (induction n) (simp_all add: constantStream_def)

text \<open>The troll on 2024-06-15, at noon and at 22:30.\<close>

lemma troll_noon:
  "calculateSpottingData troll (emptyPoolAt june15of2024) initialDebugState (clockAt 12 0) =
     Inr \<lparr>event = None,
          breakdown = [Final ''Final Chance'' 0.002, Base ''Base Chance'' 0.1,
                       Multiplier ''Time'' (Some ''Day'') 0.05, Penalty ''Daylight'' 0.4],
          chance = 0.002\<rparr>"
  by (simp add: rules_defs time_defs troll_def allSeasons_def emptyPoolAt_def
      initialDebugState_def clockAt_def date_june15of2024)

lemma troll_night:
  "calculateSpottingData troll (emptyPoolAt june15of2024) initialDebugState (clockAt 22 30) =
     Inr \<lparr>event = None,
          breakdown = [Final ''Final Chance'' 0.22, Base ''Base Chance'' 0.1,
                       Multiplier ''Time'' (Some ''Night'') 2.2],
          chance = 0.22\<rparr>"
  by (simp add: rules_defs time_defs troll_def allSeasons_def emptyPoolAt_def
      initialDebugState_def clockAt_def date_june15of2024)

lemma generate_troll_emptyPool:
  "generateMonsterLocations (emptyPoolAt t) troll n rng pos = Inr ([], pos)"
  by (simp add: generateMonsterLocations_def troll_def lookup_def LOCATION_GROUPS_def Set_add_def
      buildLocationPool_def locationsOf_def emptyPoolAt_def)

lemma spot_troll_noon:
  "spotMonster (constantStream (1 / 2)) (emptyPoolAt june15of2024) initialDebugState
       (clockAt 12 0) ''2024-06-15'' troll =
     Inr (\<lparr>event = None,
           breakdown = [Final ''Final Chance'' 0.002, Base ''Base Chance'' 0.1,
                        Multiplier ''Time'' (Some ''Day'') 0.05, Penalty ''Daylight'' 0.4],
           count = 0, locations' = [], likelihood = ''Very Low'', currentChance = 0.002\<rparr>, 40)"
  by (simp add: spotMonster_def troll_noon trials_constantStream generate_troll_emptyPool
      getLikelihood_def maxSpotted_def)

section \<open>Facts about double arithmetic\<close>

text \<open>
  The exponent search stops at the binade of its argument, so that rounding moves a number by at
  most half a unit in the last place.
\<close>

lemma exponentFrom_range: "e \<le> exponentFrom n e x \<and> exponentFrom n e x \<le> e + int n"
proof (induction n arbitrary: e)
  case 0
  then show ?case by simp
next
  case (Suc n)
  have "e + 1 \<le> exponentFrom n (e + 1) x \<and> exponentFrom n (e + 1) x \<le> (e + 1) + int n"
    by (rule Suc.IH)
  then show ?case by simp
qed

lemma exponentFrom_below:
  "e \<le> k \<Longrightarrow> k < exponentFrom n e x \<Longrightarrow> 2 powi (k + 1) \<le> \<bar>x\<bar>"
proof (induction n arbitrary: e)
  case 0
  then show ?case by simp
next
  case (Suc n)
  show ?case
  proof (cases "\<bar>x\<bar> < 2 powi (e + 1)")
    case True
    with Suc.prems show ?thesis by simp
  next
    case False
    show ?thesis
    proof (cases "k = e")
      case True
      with False show ?thesis by simp
    next
      case ne: False
      with Suc.prems False have "e + 1 \<le> k" "k < exponentFrom n (e + 1) x"
        by simp_all
      then show ?thesis by (rule Suc.IH)
    qed
  qed
qed

lemma exponentFrom_stop:
  "exponentFrom n e x < e + int n \<Longrightarrow> \<bar>x\<bar> < 2 powi (exponentFrom n e x + 1)"
proof (induction n arbitrary: e)
  case 0
  then show ?case by simp
next
  case (Suc n)
  show ?case
  proof (cases "\<bar>x\<bar> < 2 powi (e + 1)")
    case True
    then show ?thesis by simp
  next
    case False
    with Suc.prems have "exponentFrom n (e + 1) x < (e + 1) + int n"
      by simp
    then have "\<bar>x\<bar> < 2 powi (exponentFrom n (e + 1) x + 1)"
      by (rule Suc.IH)
    with False show ?thesis by simp
  qed
qed

lemma exponent64_range: "- 1022 \<le> exponent64 x \<and> exponent64 x \<le> 1023"
  using exponentFrom_range [of "- 1022" 2045 x] by (simp add: exponent64_def)

lemma exponent64_lower:
  assumes "- 1022 < exponent64 x"
  shows "2 powi exponent64 x \<le> \<bar>x\<bar>"
proof -
  have "- 1022 \<le> exponent64 x - 1" "exponent64 x - 1 < exponentFrom 2045 (- 1022) x"
    using assms by (simp_all add: exponent64_def)
  then have "2 powi (exponent64 x - 1 + 1) \<le> \<bar>x\<bar>"
    by (rule exponentFrom_below)
  then show ?thesis by simp
qed

lemma exponent64_le:
  assumes "- 1022 \<le> k" and "\<bar>x\<bar> < 2 powi (k + 1)"
  shows "exponent64 x \<le> k"
proof (rule ccontr)
  assume "\<not> exponent64 x \<le> k"
  then have "k < exponentFrom 2045 (- 1022) x"
    by (simp add: exponent64_def)
  with assms(1) have "2 powi (k + 1) \<le> \<bar>x\<bar>"
    by (rule exponentFrom_below)
  with assms(2) show False by simp
qed

lemma exponent64_upper:
  assumes "exponent64 x < 1023"
  shows "\<bar>x\<bar> < 2 powi (exponent64 x + 1)"
  using assms exponentFrom_stop [of 2045 "- 1022" x] by (simp add: exponent64_def)

lemma exponent64_eq:
  assumes "- 1022 \<le> k" and "k < 1023"
    and "k = - 1022 \<or> 2 powi k \<le> \<bar>x\<bar>" and "\<bar>x\<bar> < 2 powi (k + 1)"
  shows "exponent64 x = k"
proof -
  have le: "exponent64 x \<le> k"
    using assms(1,4) by (rule exponent64_le)
  have "\<not> exponent64 x < k"
  proof
    assume less: "exponent64 x < k"
    then have "exponent64 x < 1023"
      using assms(2) by simp
    then have "\<bar>x\<bar> < 2 powi (exponent64 x + 1)"
      by (rule exponent64_upper)
    also have "\<dots> \<le> 2 powi k"
      using less by (intro power_int_increasing) simp_all
    finally have "\<bar>x\<bar> < 2 powi k" .
    moreover have "k \<noteq> - 1022"
      using less exponent64_range [of x] by simp
    ultimately show False
      using assms(3) by simp
  qed
  with le show ?thesis by simp
qed

lemma quantum64_pos: "0 < quantum64 x"
  by (simp add: quantum64_def)

lemma quantum64_le:
  assumes "- 1022 \<le> k" and "\<bar>x\<bar> < 2 powi (k + 1)"
  shows "quantum64 x \<le> 2 powi (k - 52)"
proof -
  have "exponent64 x \<le> k"
    using assms by (rule exponent64_le)
  then show ?thesis
    unfolding quantum64_def by (intro power_int_increasing) simp_all
qed

lemma roundTiesToEven_error: "\<bar>of_int (roundTiesToEven y) - y\<bar> \<le> 1 / 2"
proof -
  have "of_int \<lfloor>y\<rfloor> \<le> y" "y < of_int \<lfloor>y\<rfloor> + 1"
    by linarith+
  then show ?thesis
    by (auto simp: roundTiesToEven_def Let_def)
qed

lemma fl64_error: "\<bar>fl64 x - x\<bar> \<le> quantum64 x / 2"
proof -
  let ?q = "quantum64 x"
  have q: "0 < ?q" by (rule quantum64_pos)
  have "\<bar>fl64 x - x\<bar> = ?q * \<bar>of_int (roundTiesToEven (x / ?q)) - x / ?q\<bar>"
  proof -
    have "fl64 x - x = ?q * (of_int (roundTiesToEven (x / ?q)) - x / ?q)"
      using q by (simp add: fl64_def algebra_simps)
    then show ?thesis
      using q by (simp add: abs_mult)
  qed
  also have "\<dots> \<le> ?q * (1 / 2)"
    using q roundTiesToEven_error [of "x / ?q"] by (intro mult_left_mono) simp_all
  finally show ?thesis by simp
qed

lemma fl64_error_le:
  assumes "- 1022 \<le> k" and "\<bar>x\<bar> < 2 powi (k + 1)"
  shows "\<bar>fl64 x - x\<bar> \<le> 2 powi (k - 53)"
proof -
  have "\<bar>fl64 x - x\<bar> \<le> quantum64 x / 2"
    by (rule fl64_error)
  also have "\<dots> \<le> 2 powi (k - 52) / 2"
    using quantum64_le [OF assms] by simp
  also have "\<dots> = 2 powi (k - 53)"
    by (simp add: power_int_diff)
  finally show ?thesis .
qed


lemma fl64_eval:
  assumes "- 1022 \<le> k" and "k < 1023"
    and "k = - 1022 \<or> 2 powi k \<le> \<bar>x\<bar>" and "\<bar>x\<bar> < 2 powi (k + 1)"
  shows "fl64 x = 2 powi (k - 52) * of_int (roundTiesToEven (x / 2 powi (k - 52)))"
  using exponent64_eq [OF assms] by (simp add: fl64_def quantum64_def)

lemma fl64_literal_0_01: "fl64 0.01 = 5764607523034235 / 2 ^ 59"
  by (subst fl64_eval [of "- 7"]) (simp_all add: roundTiesToEven_def)

lemma minus64_0_half: "minus64 0 0.5 = - (1 / 2)"
  unfolding minus64_def by (subst fl64_eval [of "- 1"]) (simp_all add: roundTiesToEven_def)

lemma jitter_offset_0: "times64 (minus64 0 0.5) (fl64 0.01) = - (5764607523034235 / 2 ^ 60)"
  unfolding minus64_0_half fl64_literal_0_01 times64_def
  by (subst fl64_eval [of "- 8"]) (simp_all add: roundTiesToEven_def)

lemma jitter_59_0: "jitter 59 0 = 8302808125522575 / 2 ^ 47"
  unfolding jitter_def jitter_offset_0 plus64_def
  by (subst fl64_eval [of 5]) (simp_all add: roundTiesToEven_def)

lemma jitter_18_0: "jitter 18 0 = 5065142205908255 / 2 ^ 48"
  unfolding jitter_def jitter_offset_0 plus64_def
  by (subst fl64_eval [of 4]) (simp_all add: roundTiesToEven_def)

lemma randomIndex_0: "randomIndex 0 len = 0"
proof -
  have "fl64 0 = 0"
    by (simp add: fl64_def roundTiesToEven_def)
  then show ?thesis
    by (simp add: randomIndex_def times64_def Math_floor_def)
qed

lemma roundTiesToEven_nonneg: "0 \<le> y \<Longrightarrow> 0 \<le> roundTiesToEven y"
  by (auto simp: roundTiesToEven_def Let_def)

lemma roundTiesToEven_below:
  assumes "y < of_int N - 1 / 2"
  shows "roundTiesToEven y \<le> N - 1"
proof -
  have f: "of_int \<lfloor>y\<rfloor> \<le> y" "y < of_int \<lfloor>y\<rfloor> + 1"
    by linarith+
  have "\<lfloor>y\<rfloor> \<le> N - 1"
    using assms by linarith
  then consider "\<lfloor>y\<rfloor> \<le> N - 2" | "\<lfloor>y\<rfloor> = N - 1"
    by linarith
  then show ?thesis
  proof cases
    case 1
    then show ?thesis
      by (auto simp: roundTiesToEven_def Let_def)
  next
    case 2
    then have "y - of_int \<lfloor>y\<rfloor> < 1 / 2"
      using assms by simp
    then show ?thesis
      using 2 by (simp add: roundTiesToEven_def Let_def)
  qed
qed

lemma fl64_below_length:
  fixes len :: nat
  assumes "0 \<le> r" and "r \<le> 1 - 1 / 2 ^ 53" and "0 < len" and "len < 2 ^ 53"
  shows "0 \<le> fl64 (r * real len) \<and> fl64 (r * real len) < real len"
proof -
  let ?x = "r * real len"
  let ?e = "exponent64 ?x"
  let ?q = "quantum64 ?x"
  have len: "0 < real len" "real len < 2 ^ 53"
    using assms(3,4) by (simp_all add: of_nat_less_numeral_power_cancel_iff)
  have x0: "0 \<le> ?x"
    using assms(1) by simp
  have xle: "?x \<le> real len - real len / 2 ^ 53"
  proof -
    have "?x \<le> (1 - 1 / 2 ^ 53) * real len"
      using assms(2) len(1) by (intro mult_right_mono) simp_all
    then show ?thesis by (simp add: algebra_simps)
  qed
  then have xlt: "?x < real len"
    using len(1) by (smt (verit) divide_pos_pos zero_less_numeral zero_less_power)
  have "\<bar>?x\<bar> < 2 powi (52 + 1)"
    using x0 xlt len(2) by simp
  then have e52: "?e \<le> 52"
    by (intro exponent64_le) simp_all
  have q: "0 < ?q"
    by (rule quantum64_pos)
  have big: "2 powi ?e < real len"
  proof (cases "?e = - 1022")
    case True
    have "(2::real) powi (- 1022) < 1"
      by (simp add: power_int_minus field_simps)
    with True len(1) assms(3) show ?thesis
      by (smt (verit) of_nat_0_less_iff of_nat_1 of_nat_less_iff less_one of_nat_le_iff Suc_leI One_nat_def)
  next
    case False
    then have "- 1022 < ?e"
      using exponent64_range [of ?x] by simp
    then have "2 powi ?e \<le> \<bar>?x\<bar>"
      by (rule exponent64_lower)
    with x0 xlt show ?thesis by simp
  qed
  define N where "N = int len * 2 ^ nat (52 - ?e)"
  have inv: "1 / ?q = 2 powi (52 - ?e)"
    by (simp add: quantum64_def power_int_diff)
  have pw: "(2::real) powi (52 - ?e) = 2 ^ nat (52 - ?e)"
    using e52 by (simp add: power_int_def)
  have split: "real len / ?q = real len * (1 / ?q)"
    by simp
  then have N: "real_of_int N = real len / ?q"
    unfolding inv pw by (simp add: N_def)
  have "2 powi ?e * 2 powi (52 - ?e) < real len * 2 powi (52 - ?e)"
    using big by (intro mult_strict_right_mono) simp_all
  then have "2 powi (52::int) < real len * 2 powi (52 - ?e)"
    by (simp add: power_int_add [symmetric])
  then have N52: "2 ^ 52 < real_of_int N"
    unfolding N split inv by simp
  have "?x / ?q \<le> (real len - real len / 2 ^ 53) / ?q"
    using xle q by (intro divide_right_mono) simp_all
  also have "\<dots> = real_of_int N - real_of_int N / 2 ^ 53"
    using q by (simp add: N field_simps)
  also have "\<dots> < real_of_int N - 1 / 2"
    using N52 by simp
  finally have "roundTiesToEven (?x / ?q) \<le> N - 1"
    by (rule roundTiesToEven_below)
  then have "fl64 ?x \<le> ?q * of_int (N - 1)"
    unfolding fl64_def using q by (intro mult_left_mono) simp_all
  also have "\<dots> = real len - ?q"
    using q by (simp add: N algebra_simps)
  also have "\<dots> < real len"
    using q by simp
  finally have upper: "fl64 ?x < real len" .
  have "0 \<le> roundTiesToEven (?x / ?q)"
    using x0 q by (intro roundTiesToEven_nonneg) simp
  then have "0 \<le> fl64 ?x"
    unfolding fl64_def using q by simp
  with upper show ?thesis by simp
qed

lemma randomIndex_range:
  assumes "0 \<le> r" and "r \<le> 1 - 1 / 2 ^ 53" and "0 < len" and "len < 2 ^ 53"
  shows "0 \<le> randomIndex r len \<and> randomIndex r len < int len"
proof -
  have "0 \<le> fl64 (r * real len)" "fl64 (r * real len) < real len"
    using fl64_below_length [OF assms] by simp_all
  then show ?thesis
    unfolding randomIndex_def times64_def Math_floor_def
    by (simp add: floor_less_iff)
qed

lemma abs_approx:
  fixes x y :: real
  shows "\<bar>y - x\<bar> \<le> d \<Longrightarrow> \<bar>x\<bar> \<le> b \<Longrightarrow> \<bar>y\<bar> \<le> b + d"
  by linarith

lemma abs_approx_sum:
  fixes c j y :: real
  shows "\<bar>y - (c + j)\<bar> \<le> d \<Longrightarrow> \<bar>j\<bar> \<le> b \<Longrightarrow> \<bar>y - c\<bar> \<le> b + d"
  by linarith

lemma jitter_offset_bound:
  assumes "0 \<le> r" and "r \<le> 1"
  shows "\<bar>times64 (minus64 r 0.5) (fl64 0.01)\<bar> \<le> 1 / 200 + 2 powi (- 59)"
proof -
  let ?a = "minus64 r 0.5"
  let ?c = "5764607523034235 / 2 ^ 59 :: real"
  have half: "\<bar>r - 0.5\<bar> \<le> 1 / 2"
    using assms by linarith
  then have "\<bar>r - 0.5\<bar> < 2 powi (- 1 + 1)"
    by simp
  then have "\<bar>fl64 (r - 0.5) - (r - 0.5)\<bar> \<le> 2 powi (- 1 - 53)"
    by (intro fl64_error_le) simp_all
  then have a: "\<bar>?a\<bar> \<le> 1 / 2 + 2 powi (- 1 - 53)"
    unfolding minus64_def using half by (rule abs_approx)
  have "\<bar>?a * ?c\<bar> = \<bar>?a\<bar> * ?c"
    by (simp add: abs_mult)
  also have "\<dots> \<le> (1 / 2 + 2 powi (- 1 - 53)) * ?c"
    using a by (intro mult_right_mono) simp_all
  finally have ac: "\<bar>?a * ?c\<bar> \<le> (1 / 2 + 2 powi (- 1 - 53)) * ?c" .
  have "(1 / 2 + 2 powi (- 1 - 53)) * ?c < 2 powi (- 8 + 1)"
    by (simp add: power_int_minus)
  with ac have "\<bar>?a * ?c\<bar> < 2 powi (- 8 + 1)"
    by linarith
  then have "\<bar>fl64 (?a * ?c) - ?a * ?c\<bar> \<le> 2 powi (- 8 - 53)"
    by (intro fl64_error_le) simp_all
  then have "\<bar>fl64 (?a * ?c)\<bar> \<le> (1 / 2 + 2 powi (- 1 - 53)) * ?c + 2 powi (- 8 - 53)"
    using ac by (rule abs_approx)
  also have "\<dots> \<le> 1 / 200 + 2 powi (- 59)"
    by (simp add: power_int_minus)
  finally show ?thesis
    unfolding times64_def [of "minus64 r 0.5"] fl64_literal_0_01 .
qed

lemma jitter_bound:
  assumes "0 \<le> r" and "r \<le> 1" and "\<bar>c\<bar> \<le> 180"
  shows "\<bar>jitter c r - c\<bar> \<le> 1 / 200 + 2 powi (- 45)"
proof -
  let ?j = "times64 (minus64 r 0.5) (fl64 0.01)"
  have j: "\<bar>?j\<bar> \<le> 1 / 200 + 2 powi (- 59)"
    using assms(1,2) by (rule jitter_offset_bound)
  have "(1 / 200 + 2 powi (- 59) :: real) < 1"
    by (simp add: power_int_minus)
  with j assms(3) have "\<bar>c + ?j\<bar> < 256"
    by linarith
  then have "\<bar>c + ?j\<bar> < 2 powi (7 + 1)"
    by simp
  then have "\<bar>fl64 (c + ?j) - (c + ?j)\<bar> \<le> 2 powi (7 - 53)"
    by (intro fl64_error_le) simp_all
  then have "\<bar>fl64 (c + ?j) - c\<bar> \<le> 1 / 200 + 2 powi (- 59) + 2 powi (7 - 53)"
    using j by (rule abs_approx_sum)
  also have "\<dots> \<le> 1 / 200 + 2 powi (- 45)"
    by (simp add: power_int_minus)
  finally show ?thesis
    by (simp add: jitter_def plus64_def)
qed


section \<open>The probability and the final clamp\<close>

lemma finish_range: "0 \<le> chance (finish d ev cb) \<and> chance (finish d ev cb) \<le> 1"
  by (simp add: finish_def Let_def)

lemma modifier_tables_same_names:
  "fst ` set (MODIFIER_DEFINITIONS t) = fst ` set (GLOBAL_MODIFIERS t)"
  by (cases t) (auto simp: MODIFIER_DEFINITIONS_def GLOBAL_MODIFIERS_def)

lemma global_default_defined:
  assumes "map_of (MODIFIER_DEFINITIONS t) n = Some defn"
  shows "\<exists>g. map_of (GLOBAL_MODIFIERS t) n = Some g"
proof -
  from assms have "n \<in> fst ` set (MODIFIER_DEFINITIONS t)"
    by (metis map_of_eq_None_iff option.distinct(1))
  then have "n \<in> fst ` set (GLOBAL_MODIFIERS t)"
    by (simp only: modifier_tables_same_names)
  then have "map_of (GLOBAL_MODIFIERS t) n \<noteq> None"
    by (simp only: map_of_eq_None_iff not_not)
  then show ?thesis
    by blast
qed

lemma orElse_Some:
  "orElse x (Some g) = Some (case x of Some v \<Rightarrow> if v \<noteq> 0 then v else g | None \<Rightarrow> g)"
  by (simp add: orElse_def split: option.splits)

lemma evaluateModifier_total:
  assumes "n \<notin> set objectPrototypeKeys"
  shows "\<exists>i. evaluateModifier m a d now n t = Inr i"
proof (cases "map_of (MODIFIER_DEFINITIONS t) n")
  case None
  then show ?thesis
    using assms by (simp add: evaluateModifier_def lookup_def)
next
  case (Some defn)
  then obtain g where "map_of (GLOBAL_MODIFIERS t) n = Some g"
    using global_default_defined by blast
  with Some show ?thesis
    by (simp add: evaluateModifier_def lookup_def orElse_Some)
qed

lemma applyBonuses_total:
  assumes "\<forall>n \<in> set ns. n \<notin> set objectPrototypeKeys"
  shows "\<exists>cb'. applyBonuses m a d now ns cb = Inr cb'"
  using assms
proof (induction ns arbitrary: cb)
  case Nil
  then show ?case by (cases cb) simp
next
  case (Cons n ns)
  obtain c b where cb: "cb = (c, b)" by (cases cb)
  from Cons.prems have "n \<notin> set objectPrototypeKeys"
    by simp
  then obtain i where i: "evaluateModifier m a d now n Bonuses = Inr i"
    using evaluateModifier_total by blast
  show ?case
    using Cons.IH Cons.prems by (cases i) (simp_all add: cb i)
qed

lemma applyPenalties_total:
  assumes "\<forall>n \<in> set ns. n \<notin> set objectPrototypeKeys"
  shows "\<exists>cb'. applyPenalties m a d now ns cb = Inr cb'"
  using assms
proof (induction ns arbitrary: cb)
  case Nil
  then show ?case by (cases cb) simp
next
  case (Cons n ns)
  obtain c b where cb: "cb = (c, b)" by (cases cb)
  from Cons.prems have "n \<notin> set objectPrototypeKeys"
    by simp
  then obtain i where i: "evaluateModifier m a d now n Penalties = Inr i"
    using evaluateModifier_total by blast
  show ?case
    using Cons.IH Cons.prems by (cases i) (simp_all add: cb i)
qed

lemma regularRules_total:
  assumes "\<forall>n \<in> set (modifierNames m). n \<notin> set objectPrototypeKeys"
  shows "\<exists>cb. regularRules m a d now = Inr cb"
proof -
  let ?cb2 = "timeOfDayStep m d now
      (seasonStep m a d (spottingChance m, [Base ''Base Chance'' (spottingChance m)]))"
  have "\<exists>cb3. (case bonuses m of None \<Rightarrow> Inr ?cb2
                | Some names \<Rightarrow> applyBonuses m a d now names ?cb2) = Inr cb3"
    using assms applyBonuses_total [of _ m a d now ?cb2]
    by (auto simp: modifierNames_def split: option.splits)
  then obtain cb3 where cb3: "(case bonuses m of None \<Rightarrow> Inr ?cb2
                | Some names \<Rightarrow> applyBonuses m a d now names ?cb2) = Inr cb3" ..
  have "\<exists>cb4. (case penalties m of None \<Rightarrow> Inr cb3
                | Some names \<Rightarrow> applyPenalties m a d now names cb3) = Inr cb4"
    using assms applyPenalties_total [of _ m a d now cb3]
    by (auto simp: modifierNames_def split: option.splits)
  then show ?thesis
    by (simp add: regularRules_def Let_def cb3)
qed

lemma calculateSpottingData_total:
  assumes "\<forall>n \<in> set (modifierNames m). n \<notin> set objectPrototypeKeys"
  shows "\<exists>sd. calculateSpottingData m a d now = Inr sd"
  using regularRules_total [OF assms, of a d now]
  by (auto simp: calculateSpottingData_def split: restrictionCheck.splits)

lemma calculateSpottingData_range:
  assumes "calculateSpottingData m a d now = Inr sd"
  shows "0 \<le> chance sd \<and> chance sd \<le> 1"
  using assms finish_range
  by (auto simp: calculateSpottingData_def Let_def
      split: if_splits restrictionCheck.splits sum.splits)

text \<open>
  C5. Whatever the monster, the calendar state and the debug multiplier, a probability
  returned by \<open>calculateSpottingData\<close> lies in \<open>[0, 1]\<close>: the running value is
  clamped at the end, and the short-circuit returns 0. The call returns unless one of the
  monster's bonus or penalty names is a member that the tables inherit from
  \<open>Object.prototype\<close>.
\<close>

theorem probability_in_unit_interval:
  "(\<forall>sd. calculateSpottingData m a d now = Inr sd \<longrightarrow> 0 \<le> chance sd \<and> chance sd \<le> 1) \<and>
   ((\<forall>n \<in> set (modifierNames m). n \<notin> set objectPrototypeKeys) \<longrightarrow>
      (\<exists>sd. calculateSpottingData m a d now = Inr sd))"
  using calculateSpottingData_range calculateSpottingData_total by blast

lemma troll_midsummer_night:
  "calculateSpottingData (troll\<lparr>spottingChance := 0.9\<rparr>) (emptyPoolAt midsummer2024)
       initialDebugState (clockAt 22 30) =
     Inr \<lparr>event = None,
          breakdown = [Final ''Final Chance'' 1, Base ''Base Chance'' 0.9,
                       Multiplier ''Time'' (Some ''Night'') 2.2, Bonus ''Midsummer'' 0.25],
          chance = 1\<rparr>"
  by (simp add: rules_defs time_defs troll_def allSeasons_def emptyPoolAt_def
      initialDebugState_def clockAt_def date_midsummer2024)

text \<open>
  A troll of base probability 0.9 at 22:30 on Midsummer 2024: the running value is
  \<open>0.9 * 2.2 + 0.25\<close>, above 1, and the result is 1.
\<close>

theorem probability_in_unit_interval_witness:
  "\<exists>sd. calculateSpottingData (troll\<lparr>spottingChance := 0.9\<rparr>) (emptyPoolAt midsummer2024)
          initialDebugState (clockAt 22 30) = Inr sd \<and>
        breakdown sd = [Final ''Final Chance'' 1, Base ''Base Chance'' 0.9,
                        Multiplier ''Time'' (Some ''Night'') 2.2, Bonus ''Midsummer'' 0.25] \<and>
        0.9 * 2.2 + 0.25 > (1::real) \<and> 0 \<le> chance sd \<and> chance sd \<le> 1"
proof -
  let ?sd = "\<lparr>event = None,
          breakdown = [Final ''Final Chance'' 1, Base ''Base Chance'' 0.9,
                       Multiplier ''Time'' (Some ''Night'') 2.2, Bonus ''Midsummer'' 0.25],
          chance = 1\<rparr>"
  note range = probability_in_unit_interval
    [of "troll\<lparr>spottingChance := 0.9\<rparr>" "emptyPoolAt midsummer2024" initialDebugState
      "clockAt 22 30", THEN conjunct1, rule_format, OF troll_midsummer_night]
  have "calculateSpottingData (troll\<lparr>spottingChance := 0.9\<rparr>) (emptyPoolAt midsummer2024)
          initialDebugState (clockAt 22 30) = Inr ?sd \<and>
        breakdown ?sd = [Final ''Final Chance'' 1, Base ''Base Chance'' 0.9,
                        Multiplier ''Time'' (Some ''Night'') 2.2, Bonus ''Midsummer'' 0.25] \<and>
        0.9 * 2.2 + 0.25 > (1::real) \<and> 0 \<le> chance ?sd \<and> chance ?sd \<le> 1"
    using troll_midsummer_night range by simp
  then show ?thesis ..
qed

section \<open>Modifier magnitudes\<close>

text \<open>The magnitude of an active modifier, as the code computes it.\<close>

lemma evaluateModifier_active:
  assumes "lookup (MODIFIER_DEFINITIONS t) n = Own defn"
    and "condition defn a d now"
    and "map_of (GLOBAL_MODIFIERS t) n = Some g"
  shows "evaluateModifier m a d now n t =
     Inr (Active (case overrides m t n of
                    Some v \<Rightarrow> if v \<noteq> 0 then v else g
                  | None \<Rightarrow> g) (label defn))"
  using assms by (simp add: evaluateModifier_def orElse_def split: option.splits)

text \<open>
  C2. An active modifier is applied and recorded with the monster's override for its
  name when there is one, also an override of 0, and with the global default otherwise.
  The code takes \<open>override || default\<close>, so it honours every override but 0: with the
  override 0 for \<open>fullMoon\<close> and the full moon forced, the bonus is applied and recorded
  with the default 0.12, where the claim has 0.
\<close>

theorem override_zero_falls_back_to_default:
  "overrides zeroOverride Bonuses ''fullMoon'' = Some 0 \<and>
   isFullMoon (emptyPoolAt june15of2024) forcedFullMoon \<and>
   evaluateModifier zeroOverride (emptyPoolAt june15of2024) forcedFullMoon (clockAt 22 30)
       ''fullMoon'' Bonuses = Inr (Active 0.12 ''Full Moon'') \<and>
   calculateSpottingData zeroOverride (emptyPoolAt june15of2024) forcedFullMoon (clockAt 22 30) =
     Inr \<lparr>event = None,
          breakdown = [Final ''Final Chance'' 0.32, Base ''Base Chance'' 0.2,
                       Bonus ''Full Moon'' 0.12],
          chance = 0.32\<rparr>"
  by (simp add: rules_defs time_defs zeroOverride_def forcedFullMoon_def werewolf_def
      allSeasons_def emptyPoolAt_def initialDebugState_def clockAt_def date_june15of2024)

section \<open>The restriction short-circuit\<close>

text \<open>
  C3. On a day that is not Halloween, a monster with an unmet restriction gets, whatever
  the debug multiplier: probability 0, no event, and a breakdown of one \<open>impossible\<close>
  step whose reason is \<open>Requires:\<close> followed by the names of all unmet restrictions,
  joined by commas. The simulation stores count 0, no location and the likelihood
  \<open>Impossible\<close>, and makes no call to the monster's generator.
\<close>

theorem restriction_short_circuit:
  assumes "\<not> isHalloween a d"
    and "restriction m = Some r"
    and "requiresFullMoon r \<and> \<not> isFullMoon a d \<or> requiresDark r \<and> \<not> isDark d now
         \<or> requiresNight r \<and> \<not> isNight d now"
  shows "\<exists>reason.
     reason = ''Requires: '' @ join '', ''
        (map fst (filter snd
           [(''Full Moon'', requiresFullMoon r \<and> \<not> isFullMoon a d),
            (''Darkness'', requiresDark r \<and> \<not> isDark d now),
            (''Night'', requiresNight r \<and> \<not> isNight d now)])) \<and>
     calculateSpottingData m a d now =
       Inr \<lparr>event = None, breakdown = [Impossible reason], chance = 0\<rparr> \<and>
     spotMonster seedrandom a d now dateSeed m =
       Inr (\<lparr>event = None, breakdown = [Impossible reason], count = 0, locations' = [],
             likelihood = ''Impossible'', currentChance = 0\<rparr>, 0)"
proof -
  let ?unmet = "map fst (filter snd
           [(''Full Moon'', requiresFullMoon r \<and> \<not> isFullMoon a d),
            (''Darkness'', requiresDark r \<and> \<not> isDark d now),
            (''Night'', requiresNight r \<and> \<not> isNight d now)])"
  let ?reason = "''Requires: '' @ join '', '' ?unmet"
  have failed: "failedRestrictions m a d now = ?unmet"
    using assms(2) by (simp add: failedRestrictions_def)
  have nonempty: "?unmet \<noteq> []"
    using assms(3) by auto
  have check: "checkRestrictions m a d now = NotMet ?reason"
    unfolding checkRestrictions_def Let_def failed using nonempty by simp
  have calc: "calculateSpottingData m a d now =
       Inr \<lparr>event = None, breakdown = [Impossible ?reason], chance = 0\<rparr>"
    unfolding calculateSpottingData_def check using assms(1) by simp
  have spot: "spotMonster seedrandom a d now dateSeed m =
       Inr (\<lparr>event = None, breakdown = [Impossible ?reason], count = 0, locations' = [],
             likelihood = ''Impossible'', currentChance = 0\<rparr>, 0)"
    unfolding spotMonster_def calc by (simp add: isImpossibleStep_def)
  show ?thesis using calc spot by blast
qed

text \<open>
  The werewolf at noon of 2024-06-15, a day of the first quarter, with the debug
  multiplier at 7.
\<close>

theorem restriction_short_circuit_witness:
  "\<not> isHalloween (emptyPoolAt june15of2024) (initialDebugState\<lparr>multiplier := 7\<rparr>) \<and>
   restriction werewolf =
     Some \<lparr>requiresFullMoon = True, requiresDark = False, requiresNight = True\<rparr> \<and>
   \<not> isFullMoon (emptyPoolAt june15of2024) (initialDebugState\<lparr>multiplier := 7\<rparr>) \<and>
   \<not> isNight (initialDebugState\<lparr>multiplier := 7\<rparr>) (clockAt 12 0) \<and>
   calculateSpottingData werewolf (emptyPoolAt june15of2024)
       (initialDebugState\<lparr>multiplier := 7\<rparr>) (clockAt 12 0) =
     Inr \<lparr>event = None, breakdown = [Impossible ''Requires: Full Moon, Night''], chance = 0\<rparr> \<and>
   spotMonster (constantStream 0) (emptyPoolAt june15of2024)
       (initialDebugState\<lparr>multiplier := 7\<rparr>) (clockAt 12 0) ''2024-06-15'' werewolf =
     Inr (\<lparr>event = None, breakdown = [Impossible ''Requires: Full Moon, Night''], count = 0,
           locations' = [], likelihood = ''Impossible'', currentChance = 0\<rparr>, 0)"
proof -
  let ?d = "initialDebugState\<lparr>multiplier := 7\<rparr>"
  let ?a = "emptyPoolAt june15of2024"
  have h: "\<not> isHalloween ?a ?d"
    by (simp add: isHalloween_def initialDebugState_def emptyPoolAt_def date_june15of2024)
  have r: "restriction werewolf =
      Some \<lparr>requiresFullMoon = True, requiresDark = False, requiresNight = True\<rparr>"
    by (simp add: werewolf_def)
  have fm: "\<not> isFullMoon ?a ?d"
    by (simp add: isFullMoon_def initialDebugState_def emptyPoolAt_def getMoonPhaseIcon_def
        moonIndex_june15 array_get_def moonIcons_def)
  have n: "\<not> isNight ?d (clockAt 12 0)"
    by (simp add: isNight_def getCurrentTime_def initialDebugState_def clockAt_def)
  show ?thesis
    using restriction_short_circuit
      [OF h r, of "clockAt 12 0" "constantStream 0" "''2024-06-15''"] h r fm n
    by simp
qed

section \<open>The Halloween override\<close>

lemma finish_halloween:
  "finish d ev (c, [s]) =
     \<lparr>event = ev,
      breakdown = [Final ''Final Chance'' (max 0 (min (c * multiplier d) 1)), s]
        @ (if multiplier d \<noteq> 1 then [Multiplier ''Debug Multiplier'' None (multiplier d)]
           else []),
      chance = max 0 (min (c * multiplier d) 1)\<rparr>"
  by (simp add: finish_def Let_def)

text \<open>
  C4. On Halloween the probability is \<open>base * 2.5 * debugMultiplier\<close> clamped to
  \<open>[0, 1]\<close> and the event is \<open>halloween\<close>, whatever the monster's restrictions,
  seasons, times, bonuses and penalties. The breakdown is the \<open>final\<close> step, the
  \<open>Global Multiplier\<close> step and, for a debug multiplier other than 1, the
  \<open>Debug Multiplier\<close> step: no \<open>base\<close>, \<open>Season\<close>, \<open>Time\<close>, \<open>bonus\<close>,
  \<open>penalty\<close> or \<open>impossible\<close> step. For the base probability 0.1 and the debug
  multiplier 1 it is the \<open>final\<close> step of 0.25 and the \<open>Global Multiplier\<close> step of 2.5.
\<close>

theorem halloween_override:
  assumes "isHalloween a d"
  shows "\<exists>sd. calculateSpottingData m a d now = Inr sd \<and>
     chance sd = max 0 (min (spottingChance m * 2.5 * multiplier d) 1) \<and>
     event sd = Some ''halloween'' \<and>
     breakdown sd =
       [Final ''Final Chance'' (chance sd), Multiplier ''Global Multiplier'' None 2.5]
       @ (if multiplier d \<noteq> 1 then [Multiplier ''Debug Multiplier'' None (multiplier d)]
          else []) \<and>
     (\<forall>s \<in> set (breakdown sd).
        s = Final ''Final Chance'' (chance sd) \<or>
        s = Multiplier ''Global Multiplier'' None 2.5 \<or>
        s = Multiplier ''Debug Multiplier'' None (multiplier d)) \<and>
     (spottingChance m = 0.1 \<and> multiplier d = 1 \<longrightarrow>
        breakdown sd =
          [Final ''Final Chance'' 0.25, Multiplier ''Global Multiplier'' None 2.5])"
proof -
  let ?c = "max 0 (min (spottingChance m * 2.5 * multiplier d) 1)"
  let ?sd = "\<lparr>event = Some ''halloween'',
      breakdown = [Final ''Final Chance'' ?c, Multiplier ''Global Multiplier'' None 2.5]
        @ (if multiplier d \<noteq> 1 then [Multiplier ''Debug Multiplier'' None (multiplier d)]
           else []),
      chance = ?c\<rparr>"
  have calc: "calculateSpottingData m a d now = Inr ?sd"
    using assms
    by (simp add: calculateSpottingData_def GLOBAL_MODIFIERS_events_halloween_def
        finish_halloween)
  have scenario: "spottingChance m = 0.1 \<and> multiplier d = 1 \<longrightarrow>
      breakdown ?sd = [Final ''Final Chance'' 0.25, Multiplier ''Global Multiplier'' None 2.5]"
    by simp
  have steps: "\<forall>s \<in> set (breakdown ?sd).
        s = Final ''Final Chance'' (chance ?sd) \<or>
        s = Multiplier ''Global Multiplier'' None 2.5 \<or>
        s = Multiplier ''Debug Multiplier'' None (multiplier d)"
    by simp
  show ?thesis
    apply (rule exI [of _ ?sd])
    using calc scenario steps by simp
qed

text \<open>
  The scenario of 2024-10-31 with no override, for a monster of base probability 0.1
  that requires the full moon and the night, at noon.
\<close>

theorem halloween_override_witness:
  "isHalloween (emptyPoolAt halloween2024) initialDebugState \<and>
   restriction (werewolf\<lparr>spottingChance := 0.1\<rparr>) =
     Some \<lparr>requiresFullMoon = True, requiresDark = False, requiresNight = True\<rparr> \<and>
   calculateSpottingData (werewolf\<lparr>spottingChance := 0.1\<rparr>) (emptyPoolAt halloween2024)
       initialDebugState (clockAt 12 0) =
     Inr \<lparr>event = Some ''halloween'',
          breakdown = [Final ''Final Chance'' 0.25, Multiplier ''Global Multiplier'' None 2.5],
          chance = 0.25\<rparr>"
proof -
  have h: "isHalloween (emptyPoolAt halloween2024) initialDebugState"
    by (simp add: isHalloween_def initialDebugState_def emptyPoolAt_def date_halloween2024)
  have m: "multiplier initialDebugState = 1"
    by (simp add: initialDebugState_def)
  obtain sd where sd:
    "calculateSpottingData (werewolf\<lparr>spottingChance := 0.1\<rparr>) (emptyPoolAt halloween2024)
        initialDebugState (clockAt 12 0) = Inr sd"
    "chance sd = max 0 (min (spottingChance (werewolf\<lparr>spottingChance := 0.1\<rparr>) * 2.5
        * multiplier initialDebugState) 1)"
    "event sd = Some ''halloween''"
    "spottingChance (werewolf\<lparr>spottingChance := 0.1\<rparr>) = 0.1
       \<and> multiplier initialDebugState = 1
       \<longrightarrow> breakdown sd =
          [Final ''Final Chance'' 0.25, Multiplier ''Global Multiplier'' None 2.5]"
    using halloween_override [OF h, of "werewolf\<lparr>spottingChance := 0.1\<rparr>" "clockAt 12 0"]
    by blast
  have "sd = \<lparr>event = Some ''halloween'',
          breakdown = [Final ''Final Chance'' 0.25, Multiplier ''Global Multiplier'' None 2.5],
          chance = 0.25\<rparr>"
    using sd(2-4) m by (cases sd) simp
  then show ?thesis
    using h sd(1) by (simp add: werewolf_def)
qed

section \<open>Likelihood bands\<close>

lemma getLikelihood_not_Impossible: "getLikelihood n \<noteq> ''Impossible''"
  by (simp add: getLikelihood_def)

lemma spotMonster_likelihood:
  assumes "spotMonster seedrandom a d now dateSeed m = Inr (r, calls)"
  shows "\<exists>sd. calculateSpottingData m a d now = Inr sd \<and>
           (likelihood r = ''Impossible'' \<longleftrightarrow>
              chance sd \<le> 0 \<and> list_ex isImpossibleStep (breakdown sd)) \<and>
           (0 < chance sd \<longrightarrow> likelihood r = getLikelihood (int (count r)))"
  using assms
  by (auto simp: spotMonster_def Let_def getLikelihood_not_Impossible
           split: sum.splits if_splits prod.splits)

text \<open>
  C8. \<open>getLikelihood\<close> maps a count of at most 0 to \<open>Very Low\<close>, 1 and 2 to \<open>Low\<close>,
  3 to 5 to \<open>Medium\<close> and 6 or more to \<open>High\<close>, and only these; so 0, 1, 2, 3, 5, 6, 40
  give \<open>Very Low\<close>, \<open>Low\<close>, \<open>Low\<close>, \<open>Medium\<close>, \<open>Medium\<close>, \<open>High\<close>, \<open>High\<close>. It
  never answers \<open>Impossible\<close>: a stored record has that likelihood exactly when the
  probability is at most 0 and the breakdown has an \<open>impossible\<close> step, and with a
  positive probability the likelihood is the band of the simulated count.
\<close>

theorem getLikelihood_bands:
  "(getLikelihood n = ''Very Low'' \<longleftrightarrow> n \<le> 0) \<and>
   (getLikelihood n = ''Low'' \<longleftrightarrow> 1 \<le> n \<and> n \<le> 2) \<and>
   (getLikelihood n = ''Medium'' \<longleftrightarrow> 3 \<le> n \<and> n \<le> 5) \<and>
   (getLikelihood n = ''High'' \<longleftrightarrow> 6 \<le> n) \<and>
   map getLikelihood [0, 1, 2, 3, 5, 6, 40] =
     [''Very Low'', ''Low'', ''Low'', ''Medium'', ''Medium'', ''High'', ''High''] \<and>
   getLikelihood n \<noteq> ''Impossible'' \<and>
   (\<forall>r calls. spotMonster seedrandom a d now dateSeed m = Inr (r, calls) \<longrightarrow>
      (\<exists>sd. calculateSpottingData m a d now = Inr sd \<and>
         (likelihood r = ''Impossible'' \<longleftrightarrow>
            chance sd \<le> 0 \<and> list_ex isImpossibleStep (breakdown sd)) \<and>
         (0 < chance sd \<longrightarrow> likelihood r = getLikelihood (int (count r)))))"
proof -
  have bands: "(getLikelihood n = ''Very Low'' \<longleftrightarrow> n \<le> 0) \<and>
   (getLikelihood n = ''Low'' \<longleftrightarrow> 1 \<le> n \<and> n \<le> 2) \<and>
   (getLikelihood n = ''Medium'' \<longleftrightarrow> 3 \<le> n \<and> n \<le> 5) \<and>
   (getLikelihood n = ''High'' \<longleftrightarrow> 6 \<le> n)"
    by (simp add: getLikelihood_def)
  have examples: "map getLikelihood [0, 1, 2, 3, 5, 6, 40] =
     [''Very Low'', ''Low'', ''Low'', ''Medium'', ''Medium'', ''High'', ''High'']"
    by (simp add: getLikelihood_def)
  show ?thesis
    using bands examples getLikelihood_not_Impossible spotMonster_likelihood by blast
qed

text \<open>
  The troll at noon of 2024-06-15 with a generator that always returns 1/2: the
  probability is 0.002, no trial succeeds, and the count 0 is \<open>Very Low\<close>.
\<close>

theorem getLikelihood_bands_witness:
  "\<exists>r. spotMonster (constantStream (1 / 2)) (emptyPoolAt june15of2024) initialDebugState
         (clockAt 12 0) ''2024-06-15'' troll = Inr (r, 40) \<and>
       count r = 0 \<and> likelihood r = ''Very Low'' \<and> getLikelihood 0 = ''Very Low'' \<and>
       (\<exists>sd. calculateSpottingData troll (emptyPoolAt june15of2024) initialDebugState
                (clockAt 12 0) = Inr sd \<and>
              0 < chance sd \<and> likelihood r = getLikelihood (int (count r)))"
proof -
  define r where "r = \<lparr>event = None,
           breakdown = [Final ''Final Chance'' 0.002, Base ''Base Chance'' 0.1,
                        Multiplier ''Time'' (Some ''Day'') 0.05, Penalty ''Daylight'' 0.4],
           count = 0, locations' = [], likelihood = ''Very Low'', currentChance = 0.002\<rparr>"
  note bands = getLikelihood_bands [of 0 "constantStream (1 / 2)" "emptyPoolAt june15of2024"
      initialDebugState "clockAt 12 0" "''2024-06-15''" troll]
  have "getLikelihood 0 = ''Very Low'' \<longleftrightarrow> (0::int) \<le> 0"
    using bands by (rule conjunct1)
  then have low: "getLikelihood 0 = ''Very Low''"
    by simp
  have spot: "spotMonster (constantStream (1 / 2)) (emptyPoolAt june15of2024)
      initialDebugState (clockAt 12 0) ''2024-06-15'' troll = Inr (r, 40)"
    unfolding r_def by (rule spot_troll_noon)
  note stored = bands [THEN conjunct2, THEN conjunct2, THEN conjunct2, THEN conjunct2,
      THEN conjunct2, THEN conjunct2, rule_format, OF spot]
  then obtain sd where calc:
    "calculateSpottingData troll (emptyPoolAt june15of2024) initialDebugState
       (clockAt 12 0) = Inr sd"
    and band: "0 < chance sd \<longrightarrow> likelihood r = getLikelihood (int (count r))"
    by (elim exE conjE)
  have pos: "0 < chance sd"
    using calc unfolding troll_noon by auto
  have fields: "count r = 0" "likelihood r = ''Very Low''"
    by (simp_all add: r_def)
  from band pos have same: "likelihood r = getLikelihood (int (count r))" ..
  have "calculateSpottingData troll (emptyPoolAt june15of2024)
       initialDebugState (clockAt 12 0) = Inr sd \<and>
       0 < chance sd \<and> likelihood r = getLikelihood (int (count r))"
    using calc pos same by (intro conjI)
  then have ex: "\<exists>sd. calculateSpottingData troll (emptyPoolAt june15of2024)
       initialDebugState (clockAt 12 0) = Inr sd \<and>
       0 < chance sd \<and> likelihood r = getLikelihood (int (count r))" ..
  have "spotMonster (constantStream (1 / 2)) (emptyPoolAt june15of2024) initialDebugState
         (clockAt 12 0) ''2024-06-15'' troll = Inr (r, 40) \<and>
       count r = 0 \<and> likelihood r = ''Very Low'' \<and> getLikelihood 0 = ''Very Low'' \<and>
       (\<exists>sd. calculateSpottingData troll (emptyPoolAt june15of2024) initialDebugState
                (clockAt 12 0) = Inr sd \<and>
              0 < chance sd \<and> likelihood r = getLikelihood (int (count r)))"
    using spot fields low ex by (intro conjI)
  then show ?thesis ..
qed

section \<open>The time multiplier\<close>

text \<open>
  Every configured period has its peak strictly between its start and its end and a
  multiplier of at least 1, so the guards \<open>duration > 0\<close> hold and every ramp is at
  least 1: the initial \<open>highestMultiplier = 0\<close> is never the maximum of a match.
\<close>

lemma TIME_PERIODS_shape:
  assumes "map_of TIME_PERIODS n = Some p"
  shows "period_start p < period_peak p \<and> period_peak p < period_end p
         \<and> 1 \<le> period_multiplier p"
  using assms by (auto simp: TIME_PERIODS_def split: if_splits)

lemma currentMultiplier_ramp:
  assumes "period_start p < period_peak p" and "period_peak p < period_end p"
  shows "currentMultiplier p t = rampMultiplier p t"
  using assms
  by (simp add: currentMultiplier_def rampMultiplier_def rampProgress_def Let_def)

lemma rampMultiplier_ge_1:
  assumes "1 \<le> period_multiplier p"
  shows "1 \<le> rampMultiplier p t"
  using assms by (simp add: rampMultiplier_def)

lemma timeStep_max:
  "timeStep t n h =
     (case map_of TIME_PERIODS n of
        Some p \<Rightarrow> if period_start p \<le> t \<and> t \<le> period_end p
                  then max h (rampMultiplier p t) else h
      | None \<Rightarrow> h)"
proof (cases "map_of TIME_PERIODS n")
  case None
  then show ?thesis by (simp add: timeStep_def lookup_def)
next
  case (Some p)
  then have "currentMultiplier p t = rampMultiplier p t"
    using TIME_PERIODS_shape currentMultiplier_ramp by blast
  with Some show ?thesis
    by (simp add: timeStep_def lookup_def max_def)
qed

lemma matchingPeriods_Cons:
  "matchingPeriods (n # names) t =
     (case map_of TIME_PERIODS n of
        Some p \<Rightarrow> if period_start p \<le> t \<and> t \<le> period_end p then [p] else []
      | None \<Rightarrow> []) @ matchingPeriods names t"
  by (simp add: matchingPeriods_def split: option.splits)

lemma fold_timeStep:
  "fold (timeStep t) names h =
     fold max (map (\<lambda>p. rampMultiplier p t) (matchingPeriods names t)) h"
proof (induction names arbitrary: h)
  case Nil
  then show ?case by (simp add: matchingPeriods_def)
next
  case (Cons n names)
  let ?f = "\<lambda>p. rampMultiplier p t"
  let ?pre = "case map_of TIME_PERIODS n of
        Some p \<Rightarrow> if period_start p \<le> t \<and> t \<le> period_end p then [p] else []
      | None \<Rightarrow> []"
  have step: "timeStep t n h = fold max (map ?f ?pre) h"
    unfolding timeStep_max by (simp add: max.commute split: option.splits)
  have "fold (timeStep t) (n # names) h = fold (timeStep t) names (timeStep t n h)"
    by simp
  also have "\<dots> = fold max (map ?f (matchingPeriods names t)) (timeStep t n h)"
    by (rule Cons.IH)
  also have "\<dots> = fold max (map ?f (matchingPeriods names t)) (fold max (map ?f ?pre) h)"
    by (simp only: step)
  also have "\<dots> = fold max (map ?f (matchingPeriods (n # names) t)) h"
    unfolding matchingPeriods_Cons by simp
  finally show ?case .
qed

lemma matchingPeriods_ge_1:
  assumes "p \<in> set (matchingPeriods names t)"
  shows "1 \<le> rampMultiplier p t"
proof -
  from assms obtain n where "map_of TIME_PERIODS n = Some p"
    by (auto simp: matchingPeriods_def split: option.splits)
  then show ?thesis
    using TIME_PERIODS_shape rampMultiplier_ge_1 by blast
qed

lemma Max_set_ge_1:
  fixes xs :: "real list"
  assumes "xs \<noteq> []" and "\<forall>x \<in> set xs. 1 \<le> x"
  shows "1 \<le> Max (set xs)"
proof -
  obtain x where x: "x \<in> set xs"
    using assms(1) by (cases xs) auto
  then have "x \<le> Max (set xs)"
    by (intro Max_ge) simp_all
  moreover have "1 \<le> x"
    using assms(2) x by blast
  ultimately show ?thesis
    by linarith
qed

lemma fold_max_from_0:
  fixes xs :: "real list"
  assumes "xs \<noteq> []" and "\<forall>x \<in> set xs. 1 \<le> x"
  shows "fold max xs 0 = Max (set xs)"
proof -
  have "fold max xs 0 = Max (set (0 # xs))"
    by (simp only: Max.set_eq_fold)
  also have "\<dots> = max 0 (Max (set xs))"
    using assms(1) by simp
  also have "\<dots> = Max (set xs)"
  proof -
    have "1 \<le> Max (set xs)"
      using assms by (rule Max_set_ge_1)
    then show ?thesis by simp
  qed
  finally show ?thesis .
qed

lemma getTimeMultiplier_spec:
  assumes "''any'' \<notin> set ts"
  shows "getTimeMultiplier d now ts =
     (if matchingPeriods ts (timeToMins (getCurrentTime d now)) = [] then INACTIVE_TIME_PENALTY
      else Max (set (map (\<lambda>p. rampMultiplier p (timeToMins (getCurrentTime d now)))
                      (matchingPeriods ts (timeToMins (getCurrentTime d now))))))"
proof -
  let ?t = "timeToMins (getCurrentTime d now)"
  let ?xs = "map (\<lambda>p. rampMultiplier p ?t) (matchingPeriods ts ?t)"
  show ?thesis
  proof (cases "matchingPeriods ts ?t = []")
    case True
    then show ?thesis
      using assms by (simp add: getTimeMultiplier_def fold_timeStep)
  next
    case False
    have all: "\<forall>x \<in> set ?xs. 1 \<le> x"
      using matchingPeriods_ge_1 by auto
    have ne: "?xs \<noteq> []"
      using False by simp
    have eq: "fold max ?xs 0 = Max (set ?xs)"
      using ne all by (rule fold_max_from_0)
    have "1 \<le> Max (set ?xs)"
      using ne all by (rule Max_set_ge_1)
    then have "Max (set ?xs) \<noteq> 0"
      by linarith
    then show ?thesis
      using assms False eq by (simp add: getTimeMultiplier_def fold_timeStep Let_def)
  qed
qed

lemma night_values:
  "getTimeMultiplier initialDebugState (clockAt 21 0) [''Night''] = 1"
  "getTimeMultiplier initialDebugState (clockAt 23 59) [''Night''] = 1"
  "getTimeMultiplier initialDebugState (clockAt 22 30) [''Night''] = 2.2"
  by (simp_all add: time_defs lookup_def initialDebugState_def clockAt_def)

lemma night_period:
  "map_of TIME_PERIODS ''Night'' =
     Some \<lparr>period_start = 1260, period_peak = 1350, period_end = 1439,
           period_multiplier = 2.2\<rparr>"
  by (simp add: TIME_PERIODS_def)

text \<open>
  C6. \<open>getTimeMultiplier\<close> is 1 when the active times include \<open>any\<close>. Otherwise
  it is the greatest ramp \<open>1 + (peakMultiplier - 1) * progress\<^sup>2\<close> over the named
  periods whose closed interval contains the current minute, with
  \<open>progress = (now - start) / (peak - start)\<close> up to the peak and
  \<open>(end - now) / (end - peak)\<close> after it; and when no named period contains the
  minute it is the constant \<open>INACTIVE_TIME_PENALTY\<close>, strictly between 0 and 1. For
  the Night period (1260, 1350, 1439, 2.2) the result is 1 at 21:00 and at 23:59 and 2.2
  at 22:30.
\<close>

theorem time_multiplier:
  "(''any'' \<in> set ts \<longrightarrow> getTimeMultiplier d now ts = 1) \<and>
   (''any'' \<notin> set ts \<longrightarrow>
      getTimeMultiplier d now ts =
        (if matchingPeriods ts (timeToMins (getCurrentTime d now)) = []
         then INACTIVE_TIME_PENALTY
         else Max (set (map (\<lambda>p. rampMultiplier p (timeToMins (getCurrentTime d now)))
                         (matchingPeriods ts (timeToMins (getCurrentTime d now))))))) \<and>
   0 < INACTIVE_TIME_PENALTY \<and> INACTIVE_TIME_PENALTY < 1 \<and>
   map_of TIME_PERIODS ''Night'' =
     Some \<lparr>period_start = 1260, period_peak = 1350, period_end = 1439,
           period_multiplier = 2.2\<rparr> \<and>
   getTimeMultiplier initialDebugState (clockAt 21 0) [''Night''] = 1 \<and>
   getTimeMultiplier initialDebugState (clockAt 23 59) [''Night''] = 1 \<and>
   getTimeMultiplier initialDebugState (clockAt 22 30) [''Night''] = 2.2"
proof -
  have any: "''any'' \<in> set ts \<longrightarrow> getTimeMultiplier d now ts = 1"
    by (simp add: getTimeMultiplier_def)
  have penalty: "0 < INACTIVE_TIME_PENALTY" "INACTIVE_TIME_PENALTY < 1"
    by (simp_all add: INACTIVE_TIME_PENALTY_def)
  have spec: "''any'' \<notin> set ts \<longrightarrow>
      getTimeMultiplier d now ts =
        (if matchingPeriods ts (timeToMins (getCurrentTime d now)) = []
         then INACTIVE_TIME_PENALTY
         else Max (set (map (\<lambda>p. rampMultiplier p (timeToMins (getCurrentTime d now)))
                         (matchingPeriods ts (timeToMins (getCurrentTime d now))))))"
    using getTimeMultiplier_spec [of ts d now] by (intro impI)
  show ?thesis
    by (intro conjI any spec penalty night_period night_values)
qed

text \<open>The active times \<open>['Night']\<close> at 22:30, minute 1350, the peak of the period.\<close>

theorem time_multiplier_witness:
  "''any'' \<notin> set [''Night''] \<and>
   timeToMins (getCurrentTime initialDebugState (clockAt 22 30)) = 1350 \<and>
   matchingPeriods [''Night''] 1350 =
     [\<lparr>period_start = 1260, period_peak = 1350, period_end = 1439,
       period_multiplier = 2.2\<rparr>] \<and>
   getTimeMultiplier initialDebugState (clockAt 22 30) [''Night''] =
     rampMultiplier \<lparr>period_start = 1260, period_peak = 1350, period_end = 1439,
                     period_multiplier = 2.2\<rparr> 1350 \<and>
   rampMultiplier \<lparr>period_start = 1260, period_peak = 1350, period_end = 1439,
                   period_multiplier = 2.2\<rparr> 1350 = 1 + (2.2 - 1) * 1\<^sup>2"
proof -
  let ?night = "\<lparr>period_start = 1260, period_peak = 1350, period_end = 1439,
       period_multiplier = 2.2\<rparr>"
  have notany: "''any'' \<notin> set [''Night'']"
    by simp
  have t: "timeToMins (getCurrentTime initialDebugState (clockAt 22 30)) = 1350"
    by (simp add: timeToMins_def getCurrentTime_def initialDebugState_def clockAt_def)
  have ms: "matchingPeriods [''Night''] 1350 = [?night]"
    by (simp add: matchingPeriods_def night_period)
  have ramp: "rampMultiplier ?night 1350 = 1 + (2.2 - 1) * 1\<^sup>2"
    by (simp add: rampMultiplier_def rampProgress_def)
  note spec = time_multiplier [of "[''Night'']" initialDebugState "clockAt 22 30",
      THEN conjunct2, THEN conjunct1, rule_format, OF notany]
  have "getTimeMultiplier initialDebugState (clockAt 22 30) [''Night''] =
      rampMultiplier ?night 1350"
    using spec unfolding t ms by simp
  then show ?thesis
    using notany t ms ramp by (intro conjI)
qed

section \<open>The moon phase icon\<close>

lemma moonIndex_december20of1999: "moonIndex december20of1999 = - 5"
  by code_simp

text \<open>
  C7. \<open>getMoonPhaseIcon\<close> returns one of the eight icons for every date, also before
  the reference new moon: the index \<open>Math.round(phase * 8) % 8\<close> is within the array.
  On 1999-12-20, before the reference instant, the remainder is negative, the index is
  -5 and the array read is \<open>undefined\<close>.
\<close>

theorem moon_icon_before_reference:
  "december20of1999 < knownNewMoon \<and>
   moonIndex december20of1999 = - 5 \<and>
   getMoonPhaseIcon december20of1999 = None"
proof -
  have before: "december20of1999 < knownNewMoon"
    by (simp add: december20of1999_def knownNewMoon_def)
  have icon: "getMoonPhaseIcon december20of1999 = None"
    unfolding getMoonPhaseIcon_def moonIndex_december20of1999 by (simp add: array_get_def)
  show ?thesis
    using before moonIndex_december20of1999 icon by (intro conjI)
qed

text \<open>From the reference instant on, the index is within the array.\<close>

lemma js_rem_range:
  assumes "0 \<le> a" and "0 < b"
  shows "0 \<le> js_rem a b \<and> js_rem a b < b"
proof -
  have t: "trunc (a / b) = \<lfloor>a / b\<rfloor>"
    using assms by (simp add: trunc_def)
  have lo: "of_int \<lfloor>a / b\<rfloor> * b \<le> a"
    using assms by (metis floor_divide_lower)
  have hi: "a < (of_int \<lfloor>a / b\<rfloor> + 1) * b"
    using assms by (metis floor_divide_upper)
  show ?thesis
    unfolding js_rem_def t using lo hi by (simp add: algebra_simps)
qed

lemma moonPhase_range:
  assumes "knownNewMoon \<le> date"
  shows "0 \<le> moonPhase date \<and> moonPhase date < 1"
proof -
  let ?days = "(getTime date - getTime knownNewMoon) / 86400000"
  have "0 \<le> ?days"
    using assms by (simp add: getTime_def)
  moreover have "0 < LUNAR_MONTH"
    by (simp add: LUNAR_MONTH_def)
  ultimately have "0 \<le> js_rem ?days LUNAR_MONTH \<and> js_rem ?days LUNAR_MONTH < LUNAR_MONTH"
    by (rule js_rem_range)
  then show ?thesis
    using \<open>0 < LUNAR_MONTH\<close> by (simp add: moonPhase_def Let_def)
qed

lemma moonIndex_range:
  assumes "knownNewMoon \<le> date"
  shows "0 \<le> moonIndex date \<and> moonIndex date < 8"
proof -
  have "0 \<le> moonPhase date * 8" "moonPhase date * 8 < 8"
    using moonPhase_range [OF assms] by simp_all
  then have "0 \<le> Math_round (moonPhase date * 8)"
    unfolding Math_round_def by linarith
  then show ?thesis
    by (simp add: moonIndex_def js_rem_int_def sgn_if)
qed

lemma getMoonPhaseIcon_defined:
  assumes "knownNewMoon \<le> date"
  shows "\<exists>icon. getMoonPhaseIcon date = Some icon \<and> icon \<in> set moonIcons"
proof -
  have len: "length moonIcons = 8"
    by (simp add: moonIcons_def)
  have "nat (moonIndex date) < length moonIcons"
    using moonIndex_range [OF assms] len by linarith
  then have "moonIcons ! nat (moonIndex date) \<in> set moonIcons"
    by (rule nth_mem)
  then show ?thesis
    using moonIndex_range [OF assms] len by (simp add: getMoonPhaseIcon_def array_get_def)
qed

section \<open>Location generation\<close>

lemma set_fold_Set_add: "set (fold Set_add xs acc) = set acc \<union> set xs"
  by (induction xs arbitrary: acc) (auto simp: Set_add_def)

lemma resolveFeatureCodes_ok:
  assumes "\<forall>i \<in> set ids. i \<notin> set objectPrototypeKeys"
  shows "\<exists>codes. resolveFeatureCodes ids acc = Inr codes \<and>
           set codes = set acc \<union> (\<Union>i \<in> set ids. set (expandIdentifier i))"
  using assms
proof (induction ids arbitrary: acc)
  case Nil
  then show ?case by simp
next
  case (Cons i ids)
  show ?case
  proof (cases "map_of LOCATION_GROUPS i")
    case None
    with Cons.prems have look: "lookup LOCATION_GROUPS i = Undefined"
      by (simp add: lookup_def)
    from Cons.prems Cons.IH [of "Set_add i acc"] obtain codes where
      "resolveFeatureCodes ids (Set_add i acc) = Inr codes"
      "set codes = set (Set_add i acc) \<union> (\<Union>i \<in> set ids. set (expandIdentifier i))"
      by auto
    then show ?thesis
      using None look by (auto simp: expandIdentifier_def Set_add_def)
  next
    case (Some cs)
    then have look: "lookup LOCATION_GROUPS i = Own cs"
      by (simp add: lookup_def)
    from Cons.prems Cons.IH [of "fold Set_add cs acc"] obtain codes where
      "resolveFeatureCodes ids (fold Set_add cs acc) = Inr codes"
      "set codes = set (fold Set_add cs acc) \<union> (\<Union>i \<in> set ids. set (expandIdentifier i))"
      by auto
    then show ?thesis
      using Some look by (auto simp: expandIdentifier_def set_fold_Set_add)
  qed
qed

lemma lookup_constructor: "lookup LOCATION_GROUPS ''constructor'' = Inherited"
  by (simp add: lookup_def LOCATION_GROUPS_def objectPrototypeKeys_def)

lemma set_buildLocationPool_from:
  "set (fold (\<lambda>c locationPool. locationPool @ locationsOf a c) codes acc) =
     set acc \<union> (\<Union>c \<in> set codes. set (locationsOf a c))"
  by (induction codes arbitrary: acc) auto

lemma set_buildLocationPool:
  "set (buildLocationPool a codes) = (\<Union>c \<in> set codes. set (locationsOf a c))"
  by (simp add: buildLocationPool_def set_buildLocationPool_from)

lemma truncate_extend: "location.truncate (location.extend b ext) = b"
  by (cases b) (simp add: location.defs)

lemma extend_fields [simp]:
  "latitude (location.extend b ext) = latitude b"
  "longitude (location.extend b ext) = longitude b"
  "lat (location.extend b (spottedLocation.fields x y)) = x"
  "lng (location.extend b (spottedLocation.fields x y)) = y"
  by (cases b; simp add: location.defs spottedLocation.defs)+

lemma randomIndex_in_pool:
  assumes "unitInterval rng" and "locationPool \<noteq> []" and "length locationPool < 2 ^ 32"
  shows "\<exists>b \<in> set locationPool.
     array_get locationPool (randomIndex (rng pos) (length locationPool)) = Some b"
proof -
  let ?i = "randomIndex (rng pos) (length locationPool)"
  have r: "0 \<le> rng pos" "rng pos \<le> 1 - 1 / 2 ^ 53"
    using assms(1) by (simp_all add: unitInterval_def)
  have len: "0 < length locationPool" "length locationPool < 2 ^ 53"
    using assms(2,3) by simp_all
  have i: "0 \<le> ?i" "?i < int (length locationPool)"
    using randomIndex_range [OF r len] by simp_all
  then have get: "array_get locationPool ?i = Some (locationPool ! nat ?i)"
    by (simp add: array_get_def)
  have "locationPool ! nat ?i \<in> set locationPool"
    using i by (intro nth_mem) linarith
  with get show ?thesis
    by blast
qed

lemma placements_ok:
  assumes "unitInterval rng" and "locationPool \<noteq> []" and "length locationPool < 2 ^ 32"
  shows "\<exists>ls. placements locationPool rng pos n = Inr ls \<and> length ls = n \<and>
     (\<forall>p \<in> set ls. location.truncate p \<in> set locationPool)"
proof (induction n arbitrary: pos)
  case 0
  then show ?case by simp
next
  case (Suc n)
  obtain b where b: "b \<in> set locationPool"
    "array_get locationPool (randomIndex (rng pos) (length locationPool)) = Some b"
    using randomIndex_in_pool [OF assms] by blast
  obtain ls where ls: "placements locationPool rng (pos + 3) n = Inr ls" "length ls = n"
    "\<forall>p \<in> set ls. location.truncate p \<in> set locationPool"
    using Suc.IH [of "pos + 3"] by blast
  show ?case
    using b ls by (simp add: truncate_extend)
qed

text \<open>
  For identifiers that are no inherited member the claim holds: the codes are resolved
  as said, an empty pool gives no location and leaves the count, and with a generator in
  \<open>[0, 1)\<close> the call returns (the pools are arrays, of fewer than \<open>2\<^sup>3\<^sup>2\<close>
  elements).
\<close>

lemma generateMonsterLocations_emptyPool:
  assumes "resolveFeatureCodes (locations m) [] = Inr codes"
    and "buildLocationPool a codes = []"
  shows "generateMonsterLocations a m n rng pos = Inr ([], pos)"
  using assms by (simp add: generateMonsterLocations_def)

lemma generateMonsterLocations_returns:
  assumes "unitInterval rng" and "\<forall>i \<in> set (locations m). i \<notin> set objectPrototypeKeys"
    and "\<forall>codes. length (buildLocationPool a codes) < 2 ^ 32"
  shows "\<exists>ls pos'. generateMonsterLocations a m n rng pos = Inr (ls, pos')"
proof -
  obtain codes where codes: "resolveFeatureCodes (locations m) [] = Inr codes"
    using resolveFeatureCodes_ok [OF assms(2)] by blast
  show ?thesis
  proof (cases "buildLocationPool a codes = []")
    case True
    then show ?thesis
      using codes by (simp add: generateMonsterLocations_def)
  next
    case False
    then obtain ls where "placements (buildLocationPool a codes) rng pos n = Inr ls"
      using placements_ok [OF assms(1) _ assms(3) [rule_format]] by blast
    then show ?thesis
      using codes False by (simp add: generateMonsterLocations_def)
  qed
qed

lemma spotMonster_emptyPool:
  assumes "calculateSpottingData m a d now = Inr sd" and "0 < chance sd"
    and "resolveFeatureCodes (locations m) [] = Inr codes"
    and "buildLocationPool a codes = []"
  shows "spotMonster seedrandom a d now dateSeed m =
     Inr (\<lparr>event = event sd, breakdown = breakdown sd,
           count = trials (seedrandom (dateSeed @ id' m)) (chance sd) maxSpotted,
           locations' = [],
           likelihood = getLikelihood
             (int (trials (seedrandom (dateSeed @ id' m)) (chance sd) maxSpotted)),
           currentChance = chance sd\<rparr>, maxSpotted)"
  using assms(1,2) generateMonsterLocations_emptyPool [OF assms(3,4)]
  by (simp add: spotMonster_def Let_def)

lemma constructor_night:
  "calculateSpottingData (troll\<lparr>locations := [''constructor'']\<rparr>) (forestPoolAt june15of2024)
       initialDebugState (clockAt 22 30) =
     Inr \<lparr>event = None,
          breakdown = [Final ''Final Chance'' 0.22, Base ''Base Chance'' 0.1,
                       Multiplier ''Time'' (Some ''Night'') 2.2],
          chance = 0.22\<rparr>"
  by (simp add: rules_defs time_defs troll_def allSeasons_def forestPoolAt_def
      initialDebugState_def clockAt_def date_june15of2024)

text \<open>
  C9. A habitat identifier that names a group stands for the group's feature codes and
  any other identifier for itself; a code without locations adds nothing; with an empty
  pool the record keeps the count and has no location; and the engine never throws on
  such an inconsistency. The identifier \<open>constructor\<close> names no group, yet
  \<open>LOCATION_GROUPS['constructor']\<close> is the inherited \<open>Object\<close> function: it is
  truthy and has no \<open>forEach\<close>, so location generation throws a \<open>TypeError\<close> and
  the whole recomputation with it.
\<close>

theorem inherited_habitat_throws:
  "lookup LOCATION_GROUPS ''constructor'' = Inherited \<and>
   generateMonsterLocations (forestPoolAt june15of2024)
       (troll\<lparr>locations := [''constructor'']\<rparr>) 40 (constantStream 0 ''2024-06-15troll'') 40 =
     Inl TypeError \<and>
   calculateSpottedMonsters (constantStream 0) (forestPoolAt june15of2024) initialDebugState
       (clockAt 22 30) [troll\<lparr>locations := [''constructor'']\<rparr>] = Inl TypeError"
proof -
  have gen: "generateMonsterLocations (forestPoolAt june15of2024)
       (troll\<lparr>locations := [''constructor'']\<rparr>) 40 rng 40 = Inl TypeError" for rng
    by (simp add: generateMonsterLocations_def lookup_constructor)
  have spot: "spotMonster (constantStream 0) (forestPoolAt june15of2024) initialDebugState
       (clockAt 22 30) dateSeed (troll\<lparr>locations := [''constructor'']\<rparr>) = Inl TypeError"
    for dateSeed
    by (simp add: spotMonster_def constructor_night trials_constantStream maxSpotted_def gen)
  have all: "calculateSpottedMonsters (constantStream 0) (forestPoolAt june15of2024)
       initialDebugState (clockAt 22 30) [troll\<lparr>locations := [''constructor'']\<rparr>] =
       Inl TypeError"
    by (simp add: calculateSpottedMonsters_def spot)
  show ?thesis
    by (intro conjI lookup_constructor gen all)
qed

section \<open>Location generation on the store\<close>

lemma array_get_map: "array_get (map f xs) i = map_option f (array_get xs i)"
  by (cases "0 \<le> i \<and> i < int (length xs)") (auto simp: array_get_def nat_less_iff)

lemma array_get_mem: "array_get xs i = Some x \<Longrightarrow> x \<in> set xs"
  by (auto simp: array_get_def split: if_splits)

lemma newObject_simps [simp]:
  "allocated (newObject ob st) = allocated st + 1"
  "refsByFeatureCode (newObject ob st) = refsByFeatureCode st"
  "refsByFeatureClass (newObject ob st) = refsByFeatureClass st"
  "objects (newObject ob st) (allocated st) = ob"
  "r < allocated st \<Longrightarrow> objects (newObject ob st) r = objects st r"
  by (simp_all add: newObject_def)

text \<open>
  The loop writes the store only at new references: it returns the next \<open>n\<close>
  references, and leaves the two indexes and every object that existed as they were.
\<close>

lemma placementsInStore_frame:
  assumes "placementsInStore locationPool rng pos n st = Inr (refs, st')"
  shows "allocated st' = allocated st + n \<and>
     refs = [allocated st ..< allocated st + n] \<and>
     (\<forall>r < allocated st. objects st' r = objects st r) \<and>
     refsByFeatureCode st' = refsByFeatureCode st \<and>
     refsByFeatureClass st' = refsByFeatureClass st"
  using assms
proof (induction n arbitrary: pos st refs)
  case 0
  then show ?case by simp
next
  case (Suc n)
  from Suc.prems obtain b where
    b: "array_get locationPool (randomIndex (rng pos) (length locationPool)) = Some b"
    by (auto split: option.splits)
  define ob where "ob =
    Object (fieldsOf (objects st b))
      (Some (jitter (latitude (fieldsOf (objects st b))) (rng (pos + 1)),
             jitter (longitude (fieldsOf (objects st b))) (rng (pos + 2))))"
  from Suc.prems b obtain rest where
    rest: "placementsInStore locationPool rng (pos + 3) n (newObject ob st) = Inr (rest, st')"
    and refs: "refs = allocated st # rest"
    by (auto simp: Let_def ob_def split: sum.splits)
  from Suc.IH [OF rest] have
    a: "allocated st' = allocated st + 1 + n" and
    r: "rest = [allocated st + 1 ..< allocated st + 1 + n]" and
    o: "\<forall>r < allocated st + 1. objects st' r = objects (newObject ob st) r" and
    i: "refsByFeatureCode st' = refsByFeatureCode st"
       "refsByFeatureClass st' = refsByFeatureClass st"
    by simp_all
  have "[allocated st ..< allocated st + Suc n] =
      allocated st # [allocated st + 1 ..< allocated st + 1 + n]"
    by (simp add: upt_conv_Cons)
  then have "refs = [allocated st ..< allocated st + Suc n]"
    using refs r by simp
  moreover have "\<forall>r < allocated st. objects st' r = objects st r"
    using o by simp
  ultimately show ?case
    using a i by simp
qed

text \<open>
  Every new object is the copy of an object of the pool, with the two jittered
  coordinates of that object.
\<close>

lemma placementsInStore_objects:
  assumes "\<forall>b \<in> set locationPool. b < allocated st"
    and "placementsInStore locationPool rng pos n st = Inr (refs, st')"
    and "p \<in> set refs"
  shows "\<exists>b \<in> set locationPool. \<exists>k.
     objects st' p =
       Object (fieldsOf (objects st b))
         (Some (jitter (latitude (fieldsOf (objects st b))) (rng k),
                jitter (longitude (fieldsOf (objects st b))) (rng (k + 1))))"
  using assms
proof (induction n arbitrary: pos st refs)
  case 0
  then show ?case by simp
next
  case (Suc n)
  from Suc.prems(2) obtain b where
    b: "array_get locationPool (randomIndex (rng pos) (length locationPool)) = Some b"
    by (auto split: option.splits)
  then have bmem: "b \<in> set locationPool"
    by (rule array_get_mem)
  define ob where "ob =
    Object (fieldsOf (objects st b))
      (Some (jitter (latitude (fieldsOf (objects st b))) (rng (pos + 1)),
             jitter (longitude (fieldsOf (objects st b))) (rng (pos + 1 + 1))))"
  from Suc.prems(2) b obtain rest where
    rest: "placementsInStore locationPool rng (pos + 3) n (newObject ob st) = Inr (rest, st')"
    and refs: "refs = allocated st # rest"
    by (auto simp: Let_def ob_def split: sum.splits)
  have pool: "\<forall>b \<in> set locationPool. b < allocated (newObject ob st)"
    using Suc.prems(1) by auto
  show ?case
  proof (cases "p = allocated st")
    case True
    have "objects st' (allocated st) = objects (newObject ob st) (allocated st)"
      using placementsInStore_frame [OF rest] by simp
    then have "objects st' p = ob"
      using True by simp
    then show ?thesis
      unfolding ob_def using bmem by blast
  next
    case False
    then have "p \<in> set rest"
      using Suc.prems(3) refs by simp
    from Suc.IH [OF pool rest this] obtain c k where c: "c \<in> set locationPool"
      and ob': "objects st' p =
        Object (fieldsOf (objects (newObject ob st) c))
          (Some (jitter (latitude (fieldsOf (objects (newObject ob st) c))) (rng k),
                 jitter (longitude (fieldsOf (objects (newObject ob st) c))) (rng (k + 1))))"
      by blast
    have "objects (newObject ob st) c = objects st c"
      using Suc.prems(1) c by simp
    with c ob' show ?thesis
      by auto
  qed
qed

text \<open>
  The functions on values compute what the functions on the store do: the same error,
  or the placements that the new objects are.
\<close>

lemma placementsInStore_refines:
  assumes "\<forall>b \<in> set locationPool. b < allocated st"
  shows "placements (map (\<lambda>r. fieldsOf (objects st r)) locationPool) rng pos n =
     (case placementsInStore locationPool rng pos n st of
        Inl e \<Rightarrow> Inl e
      | Inr (refs, st') \<Rightarrow> Inr (map (\<lambda>r. placementOf (objects st' r)) refs))"
  using assms
proof (induction n arbitrary: pos st)
  case 0
  then show ?case by simp
next
  case (Suc n)
  let ?i = "randomIndex (rng pos) (length locationPool)"
  show ?case
  proof (cases "array_get locationPool ?i")
    case None
    then show ?thesis
      by (simp add: array_get_map)
  next
    case (Some b)
    let ?ob = "Object (fieldsOf (objects st b))
        (Some (jitter (latitude (fieldsOf (objects st b))) (rng (pos + 1)),
               jitter (longitude (fieldsOf (objects st b))) (rng (pos + 2))))"
    have pool: "\<forall>b \<in> set locationPool. b < allocated (newObject ?ob st)"
      using Suc.prems by auto
    have same: "map (\<lambda>r. fieldsOf (objects (newObject ?ob st) r)) locationPool =
        map (\<lambda>r. fieldsOf (objects st r)) locationPool"
      using Suc.prems by simp
    note IH = Suc.IH [OF pool, of "pos + 3", unfolded same]
    show ?thesis
    proof (cases "placementsInStore locationPool rng (pos + 3) n (newObject ?ob st)")
      case (Inl e)
      then show ?thesis
        using Some IH by (simp add: array_get_map Let_def)
    next
      case (Inr res)
      obtain rest st' where res: "res = (rest, st')"
        by (cases res)
      have "objects st' (allocated st) = objects (newObject ?ob st) (allocated st)"
        using placementsInStore_frame [OF Inr [unfolded res]] by simp
      then have "placementOf (objects st' (allocated st)) =
          location.extend (fieldsOf (objects st b))
            (spottedLocation.fields
               (jitter (latitude (fieldsOf (objects st b))) (rng (pos + 1)))
               (jitter (longitude (fieldsOf (objects st b))) (rng (pos + 2))))"
        by (simp add: placementOf_def)
      then show ?thesis
        using Some IH Inr res by (simp add: array_get_map Let_def)
    qed
  qed
qed

lemma locationsOf_appStateOf:
  "locationsOf (appStateOf t st) c = map (\<lambda>r. fieldsOf (objects st r)) (refsOf st c)"
  by (simp add: locationsOf_def refsOf_def appStateOf_def split: option.splits)

lemma buildLocationPool_appStateOf_from:
  "fold (\<lambda>c locationPool. locationPool @ locationsOf (appStateOf t st) c) codes
       (map (\<lambda>r. fieldsOf (objects st r)) acc) =
     map (\<lambda>r. fieldsOf (objects st r))
       (fold (\<lambda>c locationPool. locationPool @ refsOf st c) codes acc)"
proof (induction codes arbitrary: acc)
  case Nil
  then show ?case by simp
next
  case (Cons c codes)
  show ?case
    using Cons [of "acc @ refsOf st c"] by (simp add: locationsOf_appStateOf)
qed

lemma buildLocationPool_appStateOf:
  "buildLocationPool (appStateOf t st) codes =
     map (\<lambda>r. fieldsOf (objects st r)) (buildRefPool st codes)"
  using buildLocationPool_appStateOf_from [of t st codes "[]"]
  by (simp add: buildLocationPool_def buildRefPool_def)

lemma set_buildRefPool_from:
  "set (fold (\<lambda>c locationPool. locationPool @ refsOf st c) codes acc) =
     set acc \<union> (\<Union>c \<in> set codes. set (refsOf st c))"
  by (induction codes arbitrary: acc) auto

lemma buildRefPool_allocated:
  assumes "allocatedRefs st"
  shows "\<forall>b \<in> set (buildRefPool st codes). b < allocated st"
proof -
  have code: "r < allocated st" if "refsByFeatureCode st c = Some rs" and "r \<in> set rs" for c rs r
    using assms that unfolding allocatedRefs_def by blast
  have cls: "r < allocated st" if "refsByFeatureClass st c = Some rs" and "r \<in> set rs" for c rs r
    using assms that unfolding allocatedRefs_def by blast
  have "\<forall>b \<in> set (refsOf st c). b < allocated st" for c
    by (cases "refsByFeatureCode st c"; cases "refsByFeatureClass st c")
      (auto simp: refsOf_def dest: code cls)
  then show ?thesis
    by (auto simp: buildRefPool_def set_buildRefPool_from)
qed

lemma generateMonsterLocationsInStore_refines:
  assumes "allocatedRefs st"
  shows "generateMonsterLocations (appStateOf t st) m n rng pos =
     (case generateMonsterLocationsInStore st m n rng pos of
        Inl e \<Rightarrow> Inl e
      | Inr ((refs, pos'), st') \<Rightarrow> Inr (map (\<lambda>r. placementOf (objects st' r)) refs, pos'))"
proof (cases "resolveFeatureCodes (locations m) []")
  case (Inl e)
  then show ?thesis
    by (simp add: generateMonsterLocations_def generateMonsterLocationsInStore_def)
next
  case (Inr codes)
  note ref = placementsInStore_refines [OF buildRefPool_allocated [OF assms], of codes rng pos n]
  show ?thesis
    using Inr ref
    by (simp add: generateMonsterLocations_def generateMonsterLocationsInStore_def
        buildLocationPool_appStateOf Let_def split: sum.splits prod.splits)
qed

text \<open>
  The result of a call that returns: the references of the placements, taken from a
  pool that is not empty, or no reference and the same store.
\<close>

lemma generateMonsterLocationsInStore_cases:
  assumes "generateMonsterLocationsInStore st m n rng pos = Inr ((refs, pos'), st')"
  shows "refs = [] \<and> st' = st \<or>
     (\<exists>codes. resolveFeatureCodes (locations m) [] = Inr codes \<and>
        placementsInStore (buildRefPool st codes) rng pos n st = Inr (refs, st'))"
  using assms
  by (auto simp: generateMonsterLocationsInStore_def Let_def split: if_splits sum.splits)

text \<open>
  C10, amended. \<open>generateMonsterLocations\<close> never mutates the shared location pool: after
  a call the two indexes and every object that existed before it are as they were. Every
  returned placement is a fresh object, at a reference of its own that did not exist
  before; it has the fields of an object of the pool, \<open>latitude\<close> and \<open>longitude\<close>
  included, and its \<open>lat\<close> and \<open>lng\<close> differ from them by at most 0.005 up to the
  rounding of the double arithmetic: by at most \<open>0.005 + 2\<^sup>-\<^sup>4\<^sup>5\<close> when the base
  coordinate is at most 180 in magnitude and the generator returns doubles in
  \<open>[0, 1)\<close>.
\<close>

theorem placements_fresh_and_jittered:
  assumes "unitInterval rng" and "allocatedRefs st"
    and "generateMonsterLocationsInStore st m n rng pos = Inr ((refs, pos'), st')"
  shows "refsByFeatureCode st' = refsByFeatureCode st \<and>
     refsByFeatureClass st' = refsByFeatureClass st \<and>
     (\<forall>r < allocated st. objects st' r = objects st r) \<and>
     distinct refs \<and>
     (\<forall>p \<in> set refs.
        allocated st \<le> p \<and> p < allocated st' \<and>
        (\<exists>codes b la lg.
           resolveFeatureCodes (locations m) [] = Inr codes \<and>
           b \<in> set (buildRefPool st codes) \<and> b < allocated st \<and>
           objects st' p = Object (fieldsOf (objects st b)) (Some (la, lg)) \<and>
           (\<bar>latitude (fieldsOf (objects st b))\<bar> \<le> 180 \<longrightarrow>
              \<bar>la - latitude (fieldsOf (objects st b))\<bar> \<le> 0.005 + 2 powi (- 45)) \<and>
           (\<bar>longitude (fieldsOf (objects st b))\<bar> \<le> 180 \<longrightarrow>
              \<bar>lg - longitude (fieldsOf (objects st b))\<bar> \<le> 0.005 + 2 powi (- 45))))"
proof -
  from generateMonsterLocationsInStore_cases [OF assms(3)] show ?thesis
  proof
    assume "refs = [] \<and> st' = st"
    then show ?thesis by simp
  next
    assume "\<exists>codes. resolveFeatureCodes (locations m) [] = Inr codes \<and>
        placementsInStore (buildRefPool st codes) rng pos n st = Inr (refs, st')"
    then obtain codes where codes: "resolveFeatureCodes (locations m) [] = Inr codes"
      and run: "placementsInStore (buildRefPool st codes) rng pos n st = Inr (refs, st')"
      by blast
    note pool = buildRefPool_allocated [OF assms(2), of codes]
    from placementsInStore_frame [OF run] have
      a: "allocated st' = allocated st + n" and
      r: "refs = [allocated st ..< allocated st + n]" and
      o: "\<forall>r < allocated st. objects st' r = objects st r" and
      i: "refsByFeatureCode st' = refsByFeatureCode st"
         "refsByFeatureClass st' = refsByFeatureClass st"
      by simp_all
    have fresh: "distinct refs"
      using r by simp
    have each: "allocated st \<le> p \<and> p < allocated st' \<and>
        (\<exists>codes b la lg.
           resolveFeatureCodes (locations m) [] = Inr codes \<and>
           b \<in> set (buildRefPool st codes) \<and> b < allocated st \<and>
           objects st' p = Object (fieldsOf (objects st b)) (Some (la, lg)) \<and>
           (\<bar>latitude (fieldsOf (objects st b))\<bar> \<le> 180 \<longrightarrow>
              \<bar>la - latitude (fieldsOf (objects st b))\<bar> \<le> 0.005 + 2 powi (- 45)) \<and>
           (\<bar>longitude (fieldsOf (objects st b))\<bar> \<le> 180 \<longrightarrow>
              \<bar>lg - longitude (fieldsOf (objects st b))\<bar> \<le> 0.005 + 2 powi (- 45)))"
      if p: "p \<in> set refs" for p
    proof -
      have range: "allocated st \<le> p" "p < allocated st'"
        using p r a by simp_all
      from placementsInStore_objects [OF pool run p] obtain b k where
        b: "b \<in> set (buildRefPool st codes)" and
        ob: "objects st' p =
          Object (fieldsOf (objects st b))
            (Some (jitter (latitude (fieldsOf (objects st b))) (rng k),
                   jitter (longitude (fieldsOf (objects st b))) (rng (k + 1))))"
        by blast
      have u: "0 \<le> rng j" "rng j \<le> 1" for j
        using assms(1) unfolding unitInterval_def
        by (simp, smt (verit) divide_nonneg_nonneg zero_le_numeral zero_le_power zero_le_one)
      have lim: "(1 / 200 + 2 powi (- 45) :: real) = 0.005 + 2 powi (- 45)"
        by simp
      have la: "\<bar>latitude (fieldsOf (objects st b))\<bar> \<le> 180 \<longrightarrow>
          \<bar>jitter (latitude (fieldsOf (objects st b))) (rng k) -
            latitude (fieldsOf (objects st b))\<bar> \<le> 0.005 + 2 powi (- 45)"
        using jitter_bound [OF u, of _ k] unfolding lim by blast
      have lg: "\<bar>longitude (fieldsOf (objects st b))\<bar> \<le> 180 \<longrightarrow>
          \<bar>jitter (longitude (fieldsOf (objects st b))) (rng (k + 1)) -
            longitude (fieldsOf (objects st b))\<bar> \<le> 0.005 + 2 powi (- 45)"
        using jitter_bound [OF u, of _ "k + 1"] unfolding lim by blast
      from pool b have "b < allocated st"
        by blast
      with range codes b ob la lg show ?thesis
        by blast
    qed
    show ?thesis
      using i o fresh each by blast
  qed
qed

lemma generateMonsterLocationsInStore_returns:
  assumes "unitInterval rng" and "allocatedRefs st"
    and "\<forall>i \<in> set (locations m). i \<notin> set objectPrototypeKeys"
    and "\<forall>codes. length (buildRefPool st codes) < 2 ^ 32"
  shows "\<exists>refs pos' st'. generateMonsterLocationsInStore st m n rng pos = Inr ((refs, pos'), st')"
proof -
  have "\<forall>codes. length (buildLocationPool (appStateOf 0 st) codes) < 2 ^ 32"
    using assms(4) by (simp add: buildLocationPool_appStateOf)
  from generateMonsterLocations_returns [OF assms(1,3) this, of n pos]
  obtain ls pos' where "generateMonsterLocations (appStateOf 0 st) m n rng pos = Inr (ls, pos')"
    by blast
  then show ?thesis
    unfolding generateMonsterLocationsInStore_refines [OF assms(2)]
    by (cases "generateMonsterLocationsInStore st m n rng pos") auto
qed

text \<open>
  One placement from the forest, by a generator that returns 0: the index is 0, and the
  coordinates are the doubles \<open>58.99499999999999744\<close> and \<open>17.99499999999999744\<close>.
\<close>

lemma unitInterval_constantStream_0: "unitInterval (constantStream 0 seed)"
  by (simp add: unitInterval_def constantStream_def)

lemma allocatedRefs_forestStore: "allocatedRefs forestStore"
  by (auto simp: allocatedRefs_def forestStore_def split: if_splits)

lemma appStateOf_forestStore: "appStateOf t forestStore = forestPoolAt t"
  by (auto simp: appStateOf_def forestStore_def forestPoolAt_def fun_eq_iff)

lemma generate_forest_in_store:
  "generateMonsterLocationsInStore forestStore troll 1
       (constantStream 0 ''2024-06-15troll'') 40 = Inr (([1], 43), forestStoreAfter)"
  by (simp add: generateMonsterLocationsInStore_def troll_def lookup_def LOCATION_GROUPS_def
      Set_add_def buildRefPool_def refsOf_def forestStore_def forestStoreAfter_def
      jittered_def newObject_def constantStream_def array_get_def randomIndex_0 forest_def
      jitter_59_0 jitter_18_0 Let_def)

lemma generate_forest:
  "generateMonsterLocations (forestPoolAt june15of2024) troll 1
       (constantStream 0 ''2024-06-15troll'') 40 = Inr ([placementOf jittered], 43)"
proof -
  note run = generateMonsterLocationsInStore_refines
    [OF allocatedRefs_forestStore, of june15of2024 troll 1
      "constantStream 0 ''2024-06-15troll''" 40,
      unfolded appStateOf_forestStore generate_forest_in_store]
  then show ?thesis
    by (simp add: forestStoreAfter_def)
qed

lemma forestStore_objects:
  "objects forestStore r = Object forest None"
  "objects forestStoreAfter 0 = Object forest None"
  "objects forestStoreAfter 1 = jittered"
  "allocated forestStore = 1"
  "allocated forestStoreAfter = 2"
  "refsByFeatureCode forestStoreAfter = refsByFeatureCode forestStore"
  "refsByFeatureClass forestStoreAfter = refsByFeatureClass forestStore"
  by (simp_all add: forestStore_def forestStoreAfter_def)

text \<open>
  C10 as stated fails: when the generator returns 0 at the latitude 59, the offset
  \<open>-0.5 * 0.01\<close> is the double \<open>-0.005000000000000000104\<close> and the sum rounds to
  \<open>58.99499999999999744\<close>, which differs from 59 by more than 0.005.
\<close>

theorem jitter_beyond_bound_counterexample:
  "unitInterval (constantStream 0 ''2024-06-15troll'') \<and>
   allocatedRefs forestStore \<and>
   generateMonsterLocationsInStore forestStore troll 1
       (constantStream 0 ''2024-06-15troll'') 40 = Inr (([1], 43), forestStoreAfter) \<and>
   objects forestStoreAfter 1 =
     Object forest (Some (8302808125522575 / 2 ^ 47, 5065142205908255 / 2 ^ 48)) \<and>
   latitude forest = 59 \<and>
   \<not> \<bar>8302808125522575 / 2 ^ 47 - latitude forest\<bar> < 0.005 \<and>
   generateMonsterLocations (forestPoolAt june15of2024) troll 1
       (constantStream 0 ''2024-06-15troll'') 40 = Inr ([placementOf jittered], 43) \<and>
   \<not> \<bar>lat (placementOf jittered) - latitude (placementOf jittered)\<bar> < 0.005"
proof -
  have ob: "objects forestStoreAfter 1 =
      Object forest (Some (8302808125522575 / 2 ^ 47, 5065142205908255 / 2 ^ 48))"
    by (simp only: forestStore_objects jittered_def)
  have la: "latitude forest = 59"
    by (simp add: forest_def)
  have d: "\<not> \<bar>8302808125522575 / 2 ^ 47 - latitude forest\<bar> < 0.005"
    by (simp add: forest_def)
  have p: "\<not> \<bar>lat (placementOf jittered) - latitude (placementOf jittered)\<bar> < 0.005"
    by (simp add: placementOf_def jittered_def forest_def)
  show ?thesis
    by (intro conjI unitInterval_constantStream_0 allocatedRefs_forestStore
        generate_forest_in_store ob la d generate_forest p)
qed

text \<open>The same call, for the amended statement.\<close>

theorem placements_fresh_and_jittered_witness:
  "unitInterval (constantStream 0 ''2024-06-15troll'') \<and>
   allocatedRefs forestStore \<and>
   generateMonsterLocationsInStore forestStore troll 1
       (constantStream 0 ''2024-06-15troll'') 40 = Inr (([1], 43), forestStoreAfter) \<and>
   refsByFeatureCode forestStoreAfter = refsByFeatureCode forestStore \<and>
   refsByFeatureClass forestStoreAfter = refsByFeatureClass forestStore \<and>
   objects forestStoreAfter 0 = objects forestStore 0 \<and>
   distinct [1 :: ref] \<and>
   allocated forestStore \<le> 1 \<and> 1 < allocated forestStoreAfter \<and>
   (\<exists>codes b la lg.
      resolveFeatureCodes (locations troll) [] = Inr codes \<and>
      b \<in> set (buildRefPool forestStore codes) \<and> b < allocated forestStore \<and>
      objects forestStoreAfter 1 = Object (fieldsOf (objects forestStore b)) (Some (la, lg)) \<and>
      \<bar>latitude (fieldsOf (objects forestStore b))\<bar> \<le> 180 \<and>
      \<bar>la - latitude (fieldsOf (objects forestStore b))\<bar> \<le> 0.005 + 2 powi (- 45) \<and>
      \<bar>longitude (fieldsOf (objects forestStore b))\<bar> \<le> 180 \<and>
      \<bar>lg - longitude (fieldsOf (objects forestStore b))\<bar> \<le> 0.005 + 2 powi (- 45))"
proof -
  note all = placements_fresh_and_jittered
    [OF unitInterval_constantStream_0 allocatedRefs_forestStore generate_forest_in_store]
  have zero: "0 < allocated forestStore"
    by (simp add: forestStore_objects)
  have one: "(1 :: ref) \<in> set [1]"
    by simp
  note code = all [THEN conjunct1]
  note cls = all [THEN conjunct2, THEN conjunct1]
  note old = all [THEN conjunct2, THEN conjunct2, THEN conjunct1, rule_format, OF zero]
  note fresh = all [THEN conjunct2, THEN conjunct2, THEN conjunct2, THEN conjunct1]
  note new = all [THEN conjunct2, THEN conjunct2, THEN conjunct2, THEN conjunct2,
    rule_format, OF one]
  note lower = new [THEN conjunct1]
  note upper = new [THEN conjunct2, THEN conjunct1]
  have la: "\<bar>latitude (fieldsOf (objects forestStore b))\<bar> \<le> 180" for b
    by (simp add: forestStore_objects forest_def)
  have lg: "\<bar>longitude (fieldsOf (objects forestStore b))\<bar> \<le> 180" for b
    by (simp add: forestStore_objects forest_def)
  from new [THEN conjunct2, THEN conjunct2] obtain codes b x y where
    c: "resolveFeatureCodes (locations troll) [] = Inr codes" and
    b: "b \<in> set (buildRefPool forestStore codes)" "b < allocated forestStore" and
    ob: "objects forestStoreAfter 1 = Object (fieldsOf (objects forestStore b)) (Some (x, y))" and
    bx: "\<bar>latitude (fieldsOf (objects forestStore b))\<bar> \<le> 180 \<longrightarrow>
      \<bar>x - latitude (fieldsOf (objects forestStore b))\<bar> \<le> 0.005 + 2 powi (- 45)" and
    by': "\<bar>longitude (fieldsOf (objects forestStore b))\<bar> \<le> 180 \<longrightarrow>
      \<bar>y - longitude (fieldsOf (objects forestStore b))\<bar> \<le> 0.005 + 2 powi (- 45)"
    by (elim exE conjE)
  have ex: "\<exists>codes b la lg.
      resolveFeatureCodes (locations troll) [] = Inr codes \<and>
      b \<in> set (buildRefPool forestStore codes) \<and> b < allocated forestStore \<and>
      objects forestStoreAfter 1 = Object (fieldsOf (objects forestStore b)) (Some (la, lg)) \<and>
      \<bar>latitude (fieldsOf (objects forestStore b))\<bar> \<le> 180 \<and>
      \<bar>la - latitude (fieldsOf (objects forestStore b))\<bar> \<le> 0.005 + 2 powi (- 45) \<and>
      \<bar>longitude (fieldsOf (objects forestStore b))\<bar> \<le> 180 \<and>
      \<bar>lg - longitude (fieldsOf (objects forestStore b))\<bar> \<le> 0.005 + 2 powi (- 45)"
    by (rule exI [where x = codes], rule exI [where x = b], rule exI [where x = x],
        rule exI [where x = y])
      (intro conjI c b ob la lg bx [rule_format, OF la] by' [rule_format, OF lg])
  show ?thesis
    by (intro conjI unitInterval_constantStream_0 allocatedRefs_forestStore
        generate_forest_in_store code cls old fresh lower upper ex)
qed


section \<open>Reproducibility of the recomputation\<close>

lemma same_hours_minutes:
  assumes "sameSimulatedTime d now1 now2"
  shows "getHours (getCurrentTime d now1) = getHours (getCurrentTime d now2)"
    and "getMinutes (getCurrentTime d now1) = getMinutes (getCurrentTime d now2)"
  using assms by (auto simp: sameSimulatedTime_def getCurrentTime_def split: option.splits)

lemma same_timeToMins:
  assumes "sameSimulatedTime d now1 now2"
  shows "timeToMins (getCurrentTime d now1) = timeToMins (getCurrentTime d now2)"
  using same_hours_minutes [OF assms] by (simp add: timeToMins_def)

lemma same_period:
  assumes "sameSimulatedTime d now1 now2"
  shows "getCurrentPeriodName d now1 = getCurrentPeriodName d now2"
    and "isPeriod d now1 n = isPeriod d now2 n"
  using same_timeToMins [OF assms] by (simp_all add: getCurrentPeriodName_def isPeriod_def)

lemma same_night:
  assumes "sameSimulatedTime d now1 now2"
  shows "isNight d now1 = isNight d now2"
    and "isDark d now1 = isDark d now2"
    and "isWitchingHour d now1 = isWitchingHour d now2"
  using same_hours_minutes [OF assms] same_period [OF assms]
  by (simp_all add: isNight_def isDark_def isWitchingHour_def)

lemma same_getTimeMultiplier:
  assumes "sameSimulatedTime d now1 now2"
  shows "getTimeMultiplier d now1 ts = getTimeMultiplier d now2 ts"
  using same_timeToMins [OF assms] by (simp add: getTimeMultiplier_def)

lemma same_condition:
  assumes "sameSimulatedTime d now1 now2"
    and "map_of (MODIFIER_DEFINITIONS t) n = Some defn"
  shows "condition defn a d now1 = condition defn a d now2"
  using assms(2) same_period(2) [OF assms(1)] same_night(3) [OF assms(1)]
  by (cases t) (auto simp: MODIFIER_DEFINITIONS_def split: if_splits)

lemma same_evaluateModifier:
  assumes "sameSimulatedTime d now1 now2"
  shows "evaluateModifier m a d now1 n t = evaluateModifier m a d now2 n t"
proof (cases "map_of (MODIFIER_DEFINITIONS t) n")
  case None
  then show ?thesis by (simp add: evaluateModifier_def lookup_def)
next
  case (Some defn)
  then show ?thesis
    using same_condition [OF assms Some, of a]
    by (simp add: evaluateModifier_def lookup_def)
qed

lemma same_applyBonuses:
  assumes "sameSimulatedTime d now1 now2"
  shows "applyBonuses m a d now1 ns cb = applyBonuses m a d now2 ns cb"
proof (induction ns arbitrary: cb)
  case Nil
  then show ?case by (cases cb) simp
next
  case (Cons n ns)
  obtain c b where cb: "cb = (c, b)" by (cases cb)
  show ?case
    unfolding cb
    by (simp add: same_evaluateModifier [OF assms] Cons.IH split: sum.splits modifierInfo.splits)
qed

lemma same_applyPenalties:
  assumes "sameSimulatedTime d now1 now2"
  shows "applyPenalties m a d now1 ns cb = applyPenalties m a d now2 ns cb"
proof (induction ns arbitrary: cb)
  case Nil
  then show ?case by (cases cb) simp
next
  case (Cons n ns)
  obtain c b where cb: "cb = (c, b)" by (cases cb)
  show ?case
    unfolding cb
    by (simp add: same_evaluateModifier [OF assms] Cons.IH split: sum.splits modifierInfo.splits)
qed

lemma same_calculateSpottingData:
  assumes "sameSimulatedTime d now1 now2"
  shows "calculateSpottingData m a d now1 = calculateSpottingData m a d now2"
proof -
  have failed: "failedRestrictions m a d now1 = failedRestrictions m a d now2"
    by (simp add: failedRestrictions_def same_night [OF assms] split: option.splits)
  have tod: "timeOfDayStep m d now1 cb = timeOfDayStep m d now2 cb" for cb
    by (simp add: timeOfDayStep_def Let_def same_getTimeMultiplier [OF assms]
        same_period(1) [OF assms])
  have regular: "regularRules m a d now1 = regularRules m a d now2"
    unfolding regularRules_def tod same_applyBonuses [OF assms]
      same_applyPenalties [OF assms] ..
  show ?thesis
    unfolding calculateSpottingData_def checkRestrictions_def failed regular ..
qed

lemma same_spotMonster:
  assumes "sameSimulatedTime d now1 now2"
  shows "spotMonster seedrandom a d now1 dateSeed m = spotMonster seedrandom a d now2 dateSeed m"
  unfolding spotMonster_def same_calculateSpottingData [OF assms] ..

lemma same_forEachMonster:
  assumes "sameSimulatedTime d now1 now2"
  shows "forEachMonster seedrandom a d now1 dateSeed ms acc =
         forEachMonster seedrandom a d now2 dateSeed ms acc"
  by (induction ms arbitrary: acc)
    (simp_all add: same_spotMonster [OF assms] split: sum.splits prod.splits)

text \<open>
  C1, amended. For a fixed application date, set of monsters, set of overrides and
  seeded generator, two recomputations give the same records (counts, placements,
  breakdowns), whatever the two wall clocks, when the time of day is forced; with no
  forced time they do when the two wall clocks show the same local hour and minute.
\<close>

theorem recomputation_deterministic:
  assumes "forceTime d \<noteq> None \<or>
           getHours now1 = getHours now2 \<and> getMinutes now1 = getMinutes now2"
  shows "calculateSpottedMonsters seedrandom a d now1 monsters =
         calculateSpottedMonsters seedrandom a d now2 monsters"
proof -
  from assms have "sameSimulatedTime d now1 now2"
    by (simp add: sameSimulatedTime_def)
  then show ?thesis
    by (simp add: calculateSpottedMonsters_def same_forEachMonster)
qed

text \<open>The time forced to 22:30, with wall clocks at 12:00 and at 03:15.\<close>

theorem recomputation_deterministic_witness:
  "forceTime forcedTime \<noteq> None \<and>
   getHours (clockAt 12 0) \<noteq> getHours (clockAt 3 15) \<and>
   calculateSpottedMonsters (constantStream (1 / 10)) (emptyPoolAt june15of2024) forcedTime
       (clockAt 12 0) [troll, werewolf] =
   calculateSpottedMonsters (constantStream (1 / 10)) (emptyPoolAt june15of2024) forcedTime
       (clockAt 3 15) [troll, werewolf]"
proof -
  have f: "forceTime forcedTime \<noteq> None"
    by (simp add: forcedTime_def)
  then have hyp: "forceTime forcedTime \<noteq> None \<or>
      getHours (clockAt 12 0) = getHours (clockAt 3 15) \<and>
      getMinutes (clockAt 12 0) = getMinutes (clockAt 3 15)" ..
  have c: "getHours (clockAt 12 0) \<noteq> getHours (clockAt 3 15)"
    by (simp add: clockAt_def)
  show ?thesis
    by (intro conjI f c recomputation_deterministic [OF hyp])
qed

text \<open>The troll on 2024-06-15 with a generator that always returns 1/10.\<close>

lemma spot_troll_noon_tenth:
  "spotMonster (constantStream (1 / 10)) (emptyPoolAt june15of2024) initialDebugState
       (clockAt 12 0) dateSeed troll =
     Inr (\<lparr>event = None,
           breakdown = [Final ''Final Chance'' 0.002, Base ''Base Chance'' 0.1,
                        Multiplier ''Time'' (Some ''Day'') 0.05, Penalty ''Daylight'' 0.4],
           count = 0, locations' = [], likelihood = ''Very Low'', currentChance = 0.002\<rparr>, 40)"
  by (simp add: spotMonster_def troll_noon trials_constantStream generate_troll_emptyPool
      getLikelihood_def maxSpotted_def)

lemma spot_troll_night_tenth:
  "spotMonster (constantStream (1 / 10)) (emptyPoolAt june15of2024) initialDebugState
       (clockAt 22 30) dateSeed troll =
     Inr (\<lparr>event = None,
           breakdown = [Final ''Final Chance'' 0.22, Base ''Base Chance'' 0.1,
                        Multiplier ''Time'' (Some ''Night'') 2.2],
           count = 40, locations' = [], likelihood = ''High'', currentChance = 0.22\<rparr>, 40)"
  by (simp add: spotMonster_def troll_night trials_constantStream generate_troll_emptyPool
      getLikelihood_def maxSpotted_def)

text \<open>
  C1 as stated fails: with no forced time the simulated time of day is the wall clock's.
  On 2024-06-15, with no override and a generator that always returns 1/10, the troll
  has the probability 0.002 and the count 0 at noon, and 0.22 and the count 40 at 22:30.
\<close>

theorem wall_clock_changes_output_counterexample:
  "forceTime initialDebugState = None \<and>
   calculateSpottedMonsters (constantStream (1 / 10)) (emptyPoolAt june15of2024)
       initialDebugState (clockAt 12 0) [troll] =
     Inr [''troll'' \<mapsto>
       \<lparr>event = None,
        breakdown = [Final ''Final Chance'' 0.002, Base ''Base Chance'' 0.1,
                     Multiplier ''Time'' (Some ''Day'') 0.05, Penalty ''Daylight'' 0.4],
        count = 0, locations' = [], likelihood = ''Very Low'', currentChance = 0.002\<rparr>] \<and>
   calculateSpottedMonsters (constantStream (1 / 10)) (emptyPoolAt june15of2024)
       initialDebugState (clockAt 22 30) [troll] =
     Inr [''troll'' \<mapsto>
       \<lparr>event = None,
        breakdown = [Final ''Final Chance'' 0.22, Base ''Base Chance'' 0.1,
                     Multiplier ''Time'' (Some ''Night'') 2.2],
        count = 40, locations' = [], likelihood = ''High'', currentChance = 0.22\<rparr>] \<and>
   calculateSpottedMonsters (constantStream (1 / 10)) (emptyPoolAt june15of2024)
       initialDebugState (clockAt 12 0) [troll] \<noteq>
   calculateSpottedMonsters (constantStream (1 / 10)) (emptyPoolAt june15of2024)
       initialDebugState (clockAt 22 30) [troll]"
proof -
  let ?noon = "\<lparr>event = None,
        breakdown = [Final ''Final Chance'' 0.002, Base ''Base Chance'' 0.1,
                     Multiplier ''Time'' (Some ''Day'') 0.05, Penalty ''Daylight'' 0.4],
        count = 0, locations' = [], likelihood = ''Very Low'', currentChance = 0.002\<rparr>"
  let ?night = "\<lparr>event = None,
        breakdown = [Final ''Final Chance'' 0.22, Base ''Base Chance'' 0.1,
                     Multiplier ''Time'' (Some ''Night'') 2.2],
        count = 40, locations' = [], likelihood = ''High'', currentChance = 0.22\<rparr>"
  have f: "forceTime initialDebugState = None"
    by (simp add: initialDebugState_def)
  have id: "id' troll = ''troll''"
    by (simp add: troll_def)
  have noon: "calculateSpottedMonsters (constantStream (1 / 10)) (emptyPoolAt june15of2024)
       initialDebugState (clockAt 12 0) [troll] = Inr [''troll'' \<mapsto> ?noon]"
    by (simp add: calculateSpottedMonsters_def spot_troll_noon_tenth id)
  have night: "calculateSpottedMonsters (constantStream (1 / 10)) (emptyPoolAt june15of2024)
       initialDebugState (clockAt 22 30) [troll] = Inr [''troll'' \<mapsto> ?night]"
    by (simp add: calculateSpottedMonsters_def spot_troll_night_tenth id)
  have "count ?noon \<noteq> count ?night"
    by simp
  then have "?noon \<noteq> ?night"
    by (metis)
  then have "[''troll'' \<mapsto> ?noon] \<noteq> [''troll'' \<mapsto> ?night]"
    by (metis map_upd_eqD1)
  then have diff: "calculateSpottedMonsters (constantStream (1 / 10)) (emptyPoolAt june15of2024)
       initialDebugState (clockAt 12 0) [troll] \<noteq>
     calculateSpottedMonsters (constantStream (1 / 10)) (emptyPoolAt june15of2024)
       initialDebugState (clockAt 22 30) [troll]"
    unfolding noon night by simp
  show ?thesis
    by (intro conjI f noon night diff)
qed

end
